theory Spec2Isabelle
  imports Main "HOL-Library.Multiset"
begin

section \<open>PCIe error recovery (drivers/pci/pcie/err.c)\<close>

subsection \<open>Data model\<close>

text \<open>
  \<^verbatim>\<open>enum pci_ers_result\<close>, the vote a handler returns. The spec calls
  \<^verbatim>\<open>PCI_ERS_RESULT_NO_AER_DRIVER\<close> the vote NO_DRIVER.
\<close>

datatype pci_ers_result =
    PCI_ERS_RESULT_NONE
  | PCI_ERS_RESULT_CAN_RECOVER
  | PCI_ERS_RESULT_NEED_RESET
  | PCI_ERS_RESULT_DISCONNECT
  | PCI_ERS_RESULT_RECOVERED
  | PCI_ERS_RESULT_NO_AER_DRIVER

text \<open>
  \<^verbatim>\<open>pci_channel_state_t\<close>, the channel state of a device (\<^verbatim>\<open>dev->error_state\<close>):
  NORMAL, FROZEN and PERM_FAILURE in the spec.
\<close>

datatype pci_channel_state =
    pci_channel_io_normal
  | pci_channel_io_frozen
  | pci_channel_io_perm_failure

text \<open>
  \<^verbatim>\<open>struct pci_error_handlers\<close>: four optional callbacks (a NULL pointer is \<open>None\<close>).
  A callback receives the device, here its identity, and returns its vote;
  \<^verbatim>\<open>resume\<close> returns nothing.
\<close>

record pci_error_handlers =
  error_detected :: "(nat \<Rightarrow> pci_channel_state \<Rightarrow> pci_ers_result) option"
  mmio_enabled :: "(nat \<Rightarrow> pci_ers_result) option"
  slot_reset :: "(nat \<Rightarrow> pci_ers_result) option"
  resume :: "(nat \<Rightarrow> unit) option"

record pci_driver =
  err_handler :: "pci_error_handlers option"

text \<open>
  The fields of \<^verbatim>\<open>struct pci_dev\<close> that err.c reads or writes. \<open>dev_id\<close> is the
  identity of the device (its address in C); \<open>pcie_type\<close> is what
  \<^verbatim>\<open>pci_pcie_type(dev)\<close> returns.
\<close>

record pci_dev =
  dev_id :: nat
  hdr_type :: nat
  pcie_type :: nat
  error_state :: pci_channel_state
  driver :: "pci_driver option"

text \<open>
  The topology below a port: a device with its secondary bus
  (\<^verbatim>\<open>dev->subordinate\<close>, \<open>None\<close> for NULL), a bus being the list of its devices
  (\<^verbatim>\<open>bus->devices\<close>) in discovery order.
\<close>

datatype pci_node = PciNode (node_dev: pci_dev) (subordinate: "pci_node list option")

text \<open>
  Modelled from the spec: the macros \<^verbatim>\<open>PCI_HEADER_TYPE_BRIDGE\<close>,
  \<^verbatim>\<open>PCI_EXP_TYPE_ROOT_PORT\<close> and \<^verbatim>\<open>PCI_EXP_TYPE_DOWNSTREAM\<close> are declared in a
  header that is not among the source files. The spec's kind tag BRIDGE is
  \<open>hdr_type dev = PCI_HEADER_TYPE_BRIDGE\<close>, every other value is a non-bridge; a root or
  downstream port is a device whose \<open>pcie_type\<close> is one of the two port constants.
\<close>

definition PCI_HEADER_TYPE_BRIDGE :: nat where
  "PCI_HEADER_TYPE_BRIDGE = 1"

definition PCI_EXP_TYPE_ROOT_PORT :: nat where
  "PCI_EXP_TYPE_ROOT_PORT = 4"

definition PCI_EXP_TYPE_DOWNSTREAM :: nat where
  "PCI_EXP_TYPE_DOWNSTREAM = 6"

text \<open>
  What the code does to the world outside the topology, in the order it does it: every
  call of a handler and of an external function is one event, devices named by
  \<open>dev_id\<close>. \<open>Set_io_state d s ok\<close> is the call
  \<^verbatim>\<open>pci_dev_set_io_state(d, s)\<close> and what it returned,
  \<open>Wait_for_link d ok\<close> the call \<^verbatim>\<open>pcie_wait_for_link(d, true)\<close> and what it
  returned, \<open>Rescan_bus d\<close> the call \<^verbatim>\<open>pci_rescan_bus(d->bus)\<close>,
  \<open>Uevent_ers d v\<close> the notification \<^verbatim>\<open>pci_uevent_ers(d, v)\<close>. Log messages are
  kept without their final newline, \<open>Pci_err\<close> with the int its format prints.
\<close>

datatype event =
    Device_lock nat
  | Device_unlock nat
  | Set_io_state nat pci_channel_state bool
  | Call_error_detected nat pci_channel_state
  | Call_mmio_enabled nat
  | Call_slot_reset nat
  | Call_resume nat
  | Uevent_ers nat pci_ers_result
  | Pci_info nat string
  | Pci_dbg nat string
  | Pci_err nat string int
  | Reset_bus nat
  | Reset_link nat
  | Lock_rescan_remove
  | Unlock_rescan_remove
  | Dev_get nat
  | Dev_put nat
  | Stop_and_remove nat
  | Aer_clear_fatal_status nat
  | Aer_clear_nonfatal_status nat
  | Clear_device_status nat
  | Wait_for_link nat bool
  | Rescan_bus nat

text \<open>
  The external functions whose result the orchestrators branch on:
  \<^verbatim>\<open>pci_reset_bus\<close> (negative on failure), \<^verbatim>\<open>pcie_aer_is_native\<close> and
  \<^verbatim>\<open>pcie_wait_for_link\<close>.
\<close>

record externs =
  pci_reset_bus :: "nat \<Rightarrow> int"
  pcie_aer_is_native :: "nat \<Rightarrow> bool"
  pcie_wait_for_link :: "nat \<Rightarrow> bool"

text \<open>
  A callback of \<^verbatim>\<open>pci_walk_bus\<close>,
  \<^verbatim>\<open>int (*cb)(struct pci_dev *, void *)\<close>: from the device and the user data to
  the returned int, the device and the user data as the call leaves them, and the
  events of the call.
\<close>

type_synonym 'a walk_cb = "pci_dev \<Rightarrow> 'a \<Rightarrow> int \<times> pci_dev \<times> 'a \<times> event list"


subsection \<open>merge_result\<close>

text \<open>
  \<^verbatim>\<open>static pci_ers_result_t merge_result(enum pci_ers_result orig, enum pci_ers_result new)\<close>:
  the two early returns, then the switch on \<^verbatim>\<open>orig\<close>.
\<close>

definition merge_result :: "pci_ers_result \<Rightarrow> pci_ers_result \<Rightarrow> pci_ers_result" where
  "merge_result orig new =
     (if new = PCI_ERS_RESULT_NO_AER_DRIVER then PCI_ERS_RESULT_NO_AER_DRIVER
      else if new = PCI_ERS_RESULT_NONE then orig
      else (case orig of
              PCI_ERS_RESULT_CAN_RECOVER \<Rightarrow> new
            | PCI_ERS_RESULT_RECOVERED \<Rightarrow> new
            | PCI_ERS_RESULT_DISCONNECT \<Rightarrow>
                (if new = PCI_ERS_RESULT_NEED_RESET then PCI_ERS_RESULT_NEED_RESET else orig)
            | _ \<Rightarrow> orig))"

subsection \<open>Helpers of the PCI core that err.c calls\<close>

text \<open>
  Modelled from the spec: \<^verbatim>\<open>pci_dev_set_io_state\<close> is defined in a header that is
  not among the source files. The spec (4.2, 4.4): the channel state is set to the new
  state; if the device had already been marked PERM_FAILURE the set fails and the state
  stays; marking a device PERM_FAILURE itself always takes effect. The result is whether
  the state was set.
\<close>

definition pci_dev_set_io_state :: "pci_dev \<Rightarrow> pci_channel_state \<Rightarrow> bool \<times> pci_dev" where
  "pci_dev_set_io_state dev new =
     (if error_state dev = pci_channel_io_perm_failure \<and> new \<noteq> pci_channel_io_perm_failure
        then (False, dev)
      else (True, dev\<lparr>error_state := new\<rparr>))"

text \<open>
  Modelled from the spec: \<^verbatim>\<open>pci_walk_bus\<close> is not among the source files. The
  spec (4.2): every device of the subtree is visited once, in pre-order (a device, then
  the devices of its secondary bus, then its next sibling), and no vote cuts the walk
  short. The int of the callback's signature is kept: a result other than 0 ends the
  walk. Every callback of err.c returns 0, and for such callbacks the walk is the one
  the spec describes (\<open>pci_walk_bus_fold\<close> below). The first component of the result
  says whether the walk was ended by a callback.
\<close>

fun pci_walk_bus :: "'a walk_cb \<Rightarrow> pci_node list \<Rightarrow> 'a \<Rightarrow> bool \<times> pci_node list \<times> 'a \<times> event list" where
  "pci_walk_bus cb [] userdata = (False, [], userdata, [])"
| "pci_walk_bus cb (PciNode dev None # next) userdata =
     (case cb dev userdata of (retval, dev', ud1, ev1) \<Rightarrow>
        if retval \<noteq> 0 then (True, PciNode dev' None # next, ud1, ev1)
        else (case pci_walk_bus cb next ud1 of (stop, next', ud2, ev2) \<Rightarrow>
                (stop, PciNode dev' None # next', ud2, ev1 @ ev2)))"
| "pci_walk_bus cb (PciNode dev (Some devices) # next) userdata =
     (case cb dev userdata of (retval, dev', ud1, ev1) \<Rightarrow>
        if retval \<noteq> 0 then (True, PciNode dev' (Some devices) # next, ud1, ev1)
        else (case pci_walk_bus cb devices ud1 of (stop, devices', ud2, ev2) \<Rightarrow>
                if stop then (True, PciNode dev' (Some devices') # next, ud2, ev1 @ ev2)
                else (case pci_walk_bus cb next ud2 of (stop', next', ud3, ev3) \<Rightarrow>
                        (stop', PciNode dev' (Some devices') # next', ud3, ev1 @ ev2 @ ev3))))"

text \<open>
  Modelled from the spec: \<^verbatim>\<open>pci_dev_set_disconnected\<close> is not among the source
  files. The spec (4.4): the device is marked PERM_FAILURE, no handler is consulted.
\<close>

definition pci_dev_set_disconnected :: "unit walk_cb" where
  "pci_dev_set_disconnected dev unused =
     (case pci_dev_set_io_state dev pci_channel_io_perm_failure of (changed, dev') \<Rightarrow>
        (0, dev', unused,
         [Device_lock (dev_id dev),
          Set_io_state (dev_id dev) pci_channel_io_perm_failure changed,
          Device_unlock (dev_id dev)]))"

text \<open>
  Modelled from the spec: \<^verbatim>\<open>pci_stop_and_remove_bus_device\<close> is not among the
  source files. The spec (4.4): the devices of a subtree are removed in reverse
  discovery order, children before parents, so that no device outlives its parent.
  \<open>stop_and_remove_events\<close> is the removals of one device's subtree;
  \<open>pci_stop_and_remove_bus_device\<close> also takes the device off the list of its bus.
\<close>

fun stop_and_remove_events :: "pci_node \<Rightarrow> event list"
  and stop_and_remove_bus :: "pci_node list \<Rightarrow> event list" where
  "stop_and_remove_events (PciNode dev None) = [Stop_and_remove (dev_id dev)]"
| "stop_and_remove_events (PciNode dev (Some devices)) =
     stop_and_remove_bus devices @ [Stop_and_remove (dev_id dev)]"
| "stop_and_remove_bus [] = []"
| "stop_and_remove_bus (child # next) =
     stop_and_remove_bus next @ stop_and_remove_events child"

definition pci_stop_and_remove_bus_device ::
    "pci_node \<Rightarrow> pci_node list \<Rightarrow> pci_node list \<times> event list" where
  "pci_stop_and_remove_bus_device pdev devices =
     (remove1 pdev devices, stop_and_remove_events pdev)"

subsection \<open>The callbacks of the broadcast phases\<close>

text \<open>
  \<^verbatim>\<open>report_error_detected(dev, state, result)\<close>. The condition is the C one, with
  its short-circuit order; \<^verbatim>\<open>pci_uevent_ers\<close> and \<^verbatim>\<open>pci_info\<close> are events.
\<close>

definition report_error_detected ::
    "pci_dev \<Rightarrow> pci_channel_state \<Rightarrow> pci_ers_result \<Rightarrow> int \<times> pci_dev \<times> pci_ers_result \<times> event list" where
  "report_error_detected dev0 state result =
     (case pci_dev_set_io_state dev0 state of (changed, dev) \<Rightarrow>
        (case (if \<not> changed \<or>
                  driver dev = None \<or>
                  err_handler (the (driver dev)) = None \<or>
                  error_detected (the (err_handler (the (driver dev)))) = None
               then (if hdr_type dev \<noteq> PCI_HEADER_TYPE_BRIDGE
                     then (PCI_ERS_RESULT_NO_AER_DRIVER,
                           [Pci_info (dev_id dev) ''can't recover (no error_detected callback)''])
                     else (PCI_ERS_RESULT_NONE, []))
               else (the (error_detected (the (err_handler (the (driver dev))))) (dev_id dev) state,
                     [Call_error_detected (dev_id dev) state]))
         of (vote, ev) \<Rightarrow>
           (0, dev, merge_result result vote,
            [Device_lock (dev_id dev), Set_io_state (dev_id dev) state changed] @ ev @
            [Uevent_ers (dev_id dev) vote, Device_unlock (dev_id dev)])))"

definition report_normal_detected :: "pci_ers_result walk_cb" where
  "report_normal_detected dev data = report_error_detected dev pci_channel_io_normal data"

definition report_mmio_enabled :: "pci_ers_result walk_cb" where
  "report_mmio_enabled dev result =
     (if driver dev = None \<or>
         err_handler (the (driver dev)) = None \<or>
         mmio_enabled (the (err_handler (the (driver dev)))) = None
      then (0, dev, result, [Device_lock (dev_id dev), Device_unlock (dev_id dev)])
      else (let vote = the (mmio_enabled (the (err_handler (the (driver dev))))) (dev_id dev)
            in (0, dev, merge_result result vote,
                [Device_lock (dev_id dev), Call_mmio_enabled (dev_id dev),
                 Device_unlock (dev_id dev)])))"

definition report_slot_reset :: "pci_ers_result walk_cb" where
  "report_slot_reset dev result =
     (if driver dev = None \<or>
         err_handler (the (driver dev)) = None \<or>
         slot_reset (the (err_handler (the (driver dev)))) = None
      then (0, dev, result, [Device_lock (dev_id dev), Device_unlock (dev_id dev)])
      else (let vote = the (slot_reset (the (err_handler (the (driver dev))))) (dev_id dev)
            in (0, dev, merge_result result vote,
                [Device_lock (dev_id dev), Call_slot_reset (dev_id dev),
                 Device_unlock (dev_id dev)])))"

definition report_resume :: "pci_ers_result walk_cb" where
  "report_resume dev0 data =
     (case pci_dev_set_io_state dev0 pci_channel_io_normal of (changed, dev) \<Rightarrow>
        (0, dev, data,
         [Device_lock (dev_id dev), Set_io_state (dev_id dev) pci_channel_io_normal changed] @
         (if \<not> changed \<or>
             driver dev = None \<or>
             err_handler (the (driver dev)) = None \<or>
             resume (the (err_handler (the (driver dev)))) = None
          then []
          else [Call_resume (dev_id dev)]) @
         [Uevent_ers (dev_id dev) PCI_ERS_RESULT_RECOVERED, Device_unlock (dev_id dev)]))"


subsection \<open>Non-fatal recovery\<close>

text \<open>
  \<^verbatim>\<open>pcie_do_nonfatal_recovery\<close>, lines 206 to 208: recovery runs below the first
  downstream port. \<open>bus_self\<close> is \<^verbatim>\<open>dev->bus->self\<close>, \<open>None\<close> when it is NULL.
\<close>

definition nonfatal_port :: "pci_node \<Rightarrow> pci_node option \<Rightarrow> pci_node option" where
  "nonfatal_port dev bus_self =
     (if \<not> (pcie_type (node_dev dev) = PCI_EXP_TYPE_ROOT_PORT \<or>
             pcie_type (node_dev dev) = PCI_EXP_TYPE_DOWNSTREAM)
        then bus_self
      else Some dev)"

text \<open>
  Lines 198 and 211 to 218: the error_detected broadcast from the vote CAN_RECOVER and,
  when the vote is still CAN_RECOVER, the mmio_enabled broadcast from the vote RECOVERED.
  The result is the bus, the vote and the events after the two phases.
\<close>

definition nonfatal_detect ::
    "pci_dev \<Rightarrow> pci_node list \<Rightarrow> pci_node list \<times> pci_ers_result \<times> event list" where
  "nonfatal_detect dev bus =
     (case pci_walk_bus report_normal_detected bus PCI_ERS_RESULT_CAN_RECOVER of
        (stop1, bus1, status1, ev1) \<Rightarrow>
          if status1 = PCI_ERS_RESULT_CAN_RECOVER then
            (case pci_walk_bus report_mmio_enabled bus1 PCI_ERS_RESULT_RECOVERED of
               (stop2, bus2, status2, ev2) \<Rightarrow>
                 (bus2, status2,
                  Pci_dbg (dev_id dev) ''broadcast error_detected message'' # ev1 @
                  Pci_dbg (dev_id dev) ''broadcast mmio_enabled message'' # ev2))
          else (bus1, status1, Pci_dbg (dev_id dev) ''broadcast error_detected message'' # ev1))"

text \<open>
  Lines 220 to 233: the reset on the vote NEED_RESET, the slot_reset broadcast after a
  reset that succeeded, and the test of the vote. The first component of the result is
  True when the code jumps to \<^verbatim>\<open>failed\<close>.
\<close>

definition nonfatal_reset ::
    "externs \<Rightarrow> pci_dev \<Rightarrow> pci_node list \<Rightarrow> pci_ers_result \<Rightarrow>
       bool \<times> pci_node list \<times> pci_ers_result \<times> event list" where
  "nonfatal_reset ext dev bus status =
     (if status = PCI_ERS_RESULT_NEED_RESET then
        (let ret = pci_reset_bus ext (dev_id dev) in
         if ret < 0 then
           (True, bus, PCI_ERS_RESULT_DISCONNECT,
            [Reset_bus (dev_id dev), Pci_err (dev_id dev) ''Failed to reset %d'' ret])
         else
           (case pci_walk_bus report_slot_reset bus PCI_ERS_RESULT_RECOVERED of
              (stop3, bus3, status3, ev3) \<Rightarrow>
                (status3 \<noteq> PCI_ERS_RESULT_RECOVERED, bus3, status3,
                 Reset_bus (dev_id dev) #
                 Pci_dbg (dev_id dev) ''broadcast slot_reset message'' # ev3)))
      else (status \<noteq> PCI_ERS_RESULT_RECOVERED, bus, status, []))"

text \<open>
  \<^verbatim>\<open>pcie_do_nonfatal_recovery(dev)\<close>. The result is \<open>None\<close> where the C code
  dereferences a NULL pointer (no parent bridge, or a port with no secondary bus);
  otherwise the returned vote, the bus below the port as the run leaves it, and the
  events of the run. After \<^verbatim>\<open>failed:\<close> come the disconnect notification and the
  log line; otherwise the resume broadcast and the clearing of the port's status.
\<close>

definition pcie_do_nonfatal_recovery ::
    "externs \<Rightarrow> pci_node \<Rightarrow> pci_node option \<Rightarrow>
       (pci_ers_result \<times> pci_node list \<times> event list) option" where
  "pcie_do_nonfatal_recovery ext dev0 bus_self =
     (case nonfatal_port dev0 bus_self of
        None \<Rightarrow> None
      | Some port \<Rightarrow>
         (case subordinate port of
            None \<Rightarrow> None
          | Some bus \<Rightarrow>
             (let dev = node_dev port in
              case nonfatal_detect dev bus of (bus2, status2, ev2) \<Rightarrow>
              case nonfatal_reset ext dev bus2 status2 of (failed, bus3, status3, ev3) \<Rightarrow>
                if failed then
                  Some (status3, bus3,
                        ev2 @ ev3 @
                        [Uevent_ers (dev_id dev) PCI_ERS_RESULT_DISCONNECT,
                         Pci_info (dev_id dev) ''device recovery failed''])
                else
                  (case pci_walk_bus report_resume bus3 status3 of
                     (stop4, bus4, status4, ev4) \<Rightarrow>
                       Some (status4, bus4,
                             ev2 @ ev3 @
                             Pci_dbg (dev_id dev) ''broadcast resume message'' # ev4 @
                             (if pcie_aer_is_native ext (dev_id dev)
                                then [Clear_device_status (dev_id dev)] else []) @
                             [Aer_clear_nonfatal_status (dev_id dev),
                              Pci_info (dev_id dev) ''device recovery successful''])))))"

subsection \<open>Fatal recovery\<close>

text \<open>
  Lines 162 to 165, \<^verbatim>\<open>list_for_each_entry_safe_reverse\<close> over
  \<^verbatim>\<open>parent->devices\<close>: the first argument is the entries still to visit, last
  entry of the bus first; the second is the list of the bus as the removals leave it.
\<close>

fun remove_devices_reverse ::
    "pci_node list \<Rightarrow> pci_node list \<Rightarrow> pci_node list \<times> event list" where
  "remove_devices_reverse [] devices = (devices, [])"
| "remove_devices_reverse (pdev # temp) devices =
     (case pci_stop_and_remove_bus_device pdev devices of (devices', ev) \<Rightarrow>
        (case remove_devices_reverse temp devices' of (devices'', ev') \<Rightarrow>
           (devices'', ev @ ev')))"

text \<open>
  \<^verbatim>\<open>pcie_do_fatal_recovery(dev, reset_link)\<close>. \<open>bus_self\<close> is
  \<^verbatim>\<open>dev->bus->self\<close>; the result is \<open>None\<close> where the C code dereferences a NULL
  pointer, otherwise the returned vote, the devices left on the bus below the acting
  root when \<^verbatim>\<open>reset_link\<close> is called, and the events of the run.
\<close>

definition pcie_do_fatal_recovery ::
    "externs \<Rightarrow> pci_node \<Rightarrow> pci_node option \<Rightarrow> (nat \<Rightarrow> pci_ers_result) \<Rightarrow>
       (pci_ers_result \<times> pci_node list \<times> event list) option" where
  "pcie_do_fatal_recovery ext dev bus_self reset_link =
     (case (if hdr_type (node_dev dev) = PCI_HEADER_TYPE_BRIDGE then Some dev else bus_self) of
        None \<Rightarrow> None
      | Some udev \<Rightarrow>
         (case subordinate udev of
            None \<Rightarrow> None
          | Some parent \<Rightarrow>
             (case pci_walk_bus pci_dev_set_disconnected parent () of
                (stop, parent1, unused, ev1) \<Rightarrow>
             (case remove_devices_reverse (rev parent1) parent1 of
                (parent2, ev2) \<Rightarrow>
             (let d = dev_id (node_dev dev);
                  u = dev_id (node_dev udev);
                  result = reset_link u
              in Some (result, parent2,
                   ev1 @
                   [Lock_rescan_remove, Dev_get d] @
                   ev2 @
                   [Reset_link u] @
                   (if hdr_type (node_dev dev) = PCI_HEADER_TYPE_BRIDGE
                      then Aer_clear_fatal_status d #
                           (if pcie_aer_is_native ext d then [Clear_device_status d] else [])
                    else []) @
                   (if result = PCI_ERS_RESULT_RECOVERED
                      then Wait_for_link u (pcie_wait_for_link ext u) #
                           (if pcie_wait_for_link ext u then [Rescan_bus u] else []) @
                           [Pci_info d ''Device recovery from fatal error successful'']
                    else [Uevent_ers d PCI_ERS_RESULT_DISCONNECT,
                          Pci_info d ''Device recovery from fatal error failed'']) @
                   [Dev_put d, Unlock_rescan_remove]))))))"

subsection \<open>Vocabulary of the statements\<close>

text \<open>
  The devices of a bus and of everything below it, in discovery order: the order in
  which \<open>pci_walk_bus\<close> visits them.
\<close>

fun bus_devs :: "pci_node list \<Rightarrow> pci_dev list" where
  "bus_devs [] = []"
| "bus_devs (PciNode dev None # next) = dev # bus_devs next"
| "bus_devs (PciNode dev (Some devices) # next) = dev # bus_devs devices @ bus_devs next"

text \<open>The same topology with \<open>f\<close> applied to every device.\<close>

fun map_bus :: "(pci_dev \<Rightarrow> pci_dev) \<Rightarrow> pci_node list \<Rightarrow> pci_node list" where
  "map_bus f [] = []"
| "map_bus f (PciNode dev None # next) = PciNode (f dev) None # map_bus f next"
| "map_bus f (PciNode dev (Some devices) # next) =
     PciNode (f dev) (Some (map_bus f devices)) # map_bus f next"

text \<open>
  A device after \<^verbatim>\<open>pci_dev_set_io_state(dev, pci_channel_io_normal)\<close>: NORMAL, or
  still PERM_FAILURE when it was PERM_FAILURE.
\<close>

definition set_normal :: "pci_dev \<Rightarrow> pci_dev" where
  "set_normal dev = snd (pci_dev_set_io_state dev pci_channel_io_normal)"

text \<open>
  The events of one visit of a callback, and the vote it leaves in
  \<^verbatim>\<open>*result\<close>. The events of the callbacks of err.c do not depend on the vote
  that comes in, which is why \<open>visit_events\<close> may fix it.
\<close>

definition visit_events :: "pci_ers_result walk_cb \<Rightarrow> pci_dev \<Rightarrow> event list" where
  "visit_events cb dev = snd (snd (snd (cb dev PCI_ERS_RESULT_NONE)))"

definition visit_vote :: "pci_ers_result walk_cb \<Rightarrow> pci_dev \<Rightarrow> pci_ers_result \<Rightarrow> pci_ers_result" where
  "visit_vote cb dev result = fst (snd (snd (cb dev result)))"

text \<open>The devices a run has locked, in order: each visit of a callback locks its device once.\<close>

fun visited :: "event list \<Rightarrow> nat list" where
  "visited [] = []"
| "visited (e # es) = (case e of Device_lock d \<Rightarrow> d # visited es | _ \<Rightarrow> visited es)"

text \<open>The channel state an event hands to a device, if it hands one.\<close>

fun event_state :: "event \<Rightarrow> pci_channel_state option" where
  "event_state (Set_io_state d s ok) = Some s"
| "event_state (Call_error_detected d s) = Some s"
| "event_state _ = None"

definition state_normal :: "event \<Rightarrow> bool" where
  "state_normal e = (event_state e = None \<or> event_state e = Some pci_channel_io_normal)"

text \<open>The events that take a device away: its removal, or marking it PERM_FAILURE.\<close>

fun removes_or_disconnects :: "event \<Rightarrow> bool" where
  "removes_or_disconnects (Stop_and_remove d) = True"
| "removes_or_disconnects (Set_io_state d s ok) = (s = pci_channel_io_perm_failure)"
| "removes_or_disconnects _ = False"

text \<open>The events of a slot_reset or resume broadcast: its announcement and its handler calls.\<close>

fun slot_reset_or_resume :: "event \<Rightarrow> bool" where
  "slot_reset_or_resume (Call_slot_reset d) = True"
| "slot_reset_or_resume (Call_resume d) = True"
| "slot_reset_or_resume (Pci_dbg d msg) =
     (msg = ''broadcast slot_reset message'' \<or> msg = ''broadcast resume message'')"
| "slot_reset_or_resume _ = False"

subsection \<open>Example topologies\<close>

text \<open>
  A driver whose handlers are all present: error_detected votes \<open>ed\<close>, mmio_enabled
  votes \<open>me\<close>, slot_reset votes RECOVERED.
\<close>

definition example_driver :: "pci_ers_result \<Rightarrow> pci_ers_result \<Rightarrow> pci_driver" where
  "example_driver ed me =
     \<lparr>err_handler = Some \<lparr>error_detected = Some (\<lambda>d s. ed),
                          mmio_enabled = Some (\<lambda>d. me),
                          slot_reset = Some (\<lambda>d. PCI_ERS_RESULT_RECOVERED),
                          resume = Some (\<lambda>d. ())\<rparr>\<rparr>"

text \<open>An endpoint (header type 0, PCIe type 0) and a bridge that is not a port (PCIe type 0).\<close>

definition example_endpoint :: "nat \<Rightarrow> pci_channel_state \<Rightarrow> pci_driver option \<Rightarrow> pci_dev" where
  "example_endpoint i st drv =
     \<lparr>dev_id = i, hdr_type = 0, pcie_type = 0, error_state = st, driver = drv\<rparr>"

definition example_bridge :: "nat \<Rightarrow> pci_channel_state \<Rightarrow> pci_driver option \<Rightarrow> pci_dev" where
  "example_bridge i st drv =
     \<lparr>dev_id = i, hdr_type = PCI_HEADER_TYPE_BRIDGE, pcie_type = 0, error_state = st,
      driver = drv\<rparr>"

text \<open>A root port, device 0, with the given secondary bus.\<close>

definition example_port :: "pci_node list \<Rightarrow> pci_node" where
  "example_port bus =
     PciNode \<lparr>dev_id = 0, hdr_type = PCI_HEADER_TYPE_BRIDGE, pcie_type = PCI_EXP_TYPE_ROOT_PORT,
              error_state = pci_channel_io_normal, driver = None\<rparr> (Some bus)"

text \<open>External functions: the bus reset returns \<open>ret\<close>, AER is native, the link comes up.\<close>

definition example_ext :: "int \<Rightarrow> externs" where
  "example_ext ret =
     \<lparr>pci_reset_bus = (\<lambda>d. ret), pcie_aer_is_native = (\<lambda>d. True),
      pcie_wait_for_link = (\<lambda>d. True)\<rparr>"

text \<open>
  The spec's subtree below the port: a bridge, device 1, with one endpoint, device 2,
  on its secondary bus; and a bus with a single endpoint, device 1.
\<close>

definition example_subtree :: "pci_channel_state \<Rightarrow> pci_driver option \<Rightarrow> pci_node list" where
  "example_subtree st drv =
     [PciNode (example_bridge 1 st drv) (Some [PciNode (example_endpoint 2 st drv) None])]"

definition example_single :: "pci_channel_state \<Rightarrow> pci_driver option \<Rightarrow> pci_node list" where
  "example_single st drv = [PciNode (example_endpoint 1 st drv) None]"

section \<open>The walk as a fold in discovery order\<close>

lemma pci_walk_bus_fold:
  assumes cb: "\<And>dev ud. cb dev ud = (0, f dev, h dev ud, g dev)"
  shows "pci_walk_bus cb bus ud =
           (False, map_bus f bus, fold h (bus_devs bus) ud, concat (map g (bus_devs bus)))"
  by (induction bus arbitrary: ud rule: bus_devs.induct) (simp_all add: cb)

lemma bus_devs_map_bus: "bus_devs (map_bus f bus) = map f (bus_devs bus)"
  by (induction bus rule: bus_devs.induct) simp_all

lemma map_bus_id: "map_bus (\<lambda>dev. dev) bus = bus"
  by (induction bus rule: bus_devs.induct) simp_all

lemma map_bus_comp: "map_bus f (map_bus g bus) = map_bus (\<lambda>dev. f (g dev)) bus"
  by (induction bus rule: bus_devs.induct) simp_all

lemma map_bus_cong_devs:
  "(\<And>d. d \<in> set (bus_devs bus) \<Longrightarrow> f d = g d) \<Longrightarrow> map_bus f bus = map_bus g bus"
  by (induction bus rule: bus_devs.induct) simp_all

lemma fold_const: "fold (\<lambda>dev ud. ud) xs ud = ud"
  by (induction xs) simp_all

lemma fold_fixed: "(\<And>d. d \<in> set ds \<Longrightarrow> h d s = s) \<Longrightarrow> fold h ds s = s"
  by (induction ds) simp_all

lemma set_normal_fields [simp]:
  "dev_id (set_normal dev) = dev_id dev"
  "hdr_type (set_normal dev) = hdr_type dev"
  "pcie_type (set_normal dev) = pcie_type dev"
  "driver (set_normal dev) = driver dev"
  "error_state (set_normal dev) =
     (if error_state dev = pci_channel_io_perm_failure then pci_channel_io_perm_failure
      else pci_channel_io_normal)"
  by (simp_all add: set_normal_def pci_dev_set_io_state_def)

lemma set_normal_idem [simp]: "set_normal (set_normal dev) = set_normal dev"
  by (simp add: set_normal_def pci_dev_set_io_state_def)

lemma map_bus_set_normal_idem [simp]:
  "map_bus set_normal (map_bus set_normal bus) = map_bus set_normal bus"
  by (simp add: map_bus_comp)

subsection \<open>Each callback returns 0; its device and events do not depend on the vote\<close>

lemma report_normal_detected_shape:
  "report_normal_detected dev ud =
     (0, set_normal dev, visit_vote report_normal_detected dev ud,
      visit_events report_normal_detected dev)"
  by (simp add: report_normal_detected_def report_error_detected_def set_normal_def
        visit_vote_def visit_events_def split_beta)

lemma report_mmio_enabled_shape:
  "report_mmio_enabled dev ud =
     (0, dev, visit_vote report_mmio_enabled dev ud, visit_events report_mmio_enabled dev)"
  by (simp add: report_mmio_enabled_def visit_vote_def visit_events_def Let_def)

lemma report_slot_reset_shape:
  "report_slot_reset dev ud =
     (0, dev, visit_vote report_slot_reset dev ud, visit_events report_slot_reset dev)"
  by (simp add: report_slot_reset_def visit_vote_def visit_events_def Let_def)

lemma report_resume_shape:
  "report_resume dev ud = (0, set_normal dev, ud, visit_events report_resume dev)"
  by (simp add: report_resume_def set_normal_def visit_events_def split_beta)

lemma walk_normal_detected:
  "pci_walk_bus report_normal_detected bus ud =
     (False, map_bus set_normal bus,
      fold (visit_vote report_normal_detected) (bus_devs bus) ud,
      concat (map (visit_events report_normal_detected) (bus_devs bus)))"
  by (rule pci_walk_bus_fold) (rule report_normal_detected_shape)

lemma walk_mmio_enabled:
  "pci_walk_bus report_mmio_enabled bus ud =
     (False, bus,
      fold (visit_vote report_mmio_enabled) (bus_devs bus) ud,
      concat (map (visit_events report_mmio_enabled) (bus_devs bus)))"
  using pci_walk_bus_fold [of report_mmio_enabled "\<lambda>dev. dev", OF report_mmio_enabled_shape]
  by (simp add: map_bus_id)

lemma walk_slot_reset:
  "pci_walk_bus report_slot_reset bus ud =
     (False, bus,
      fold (visit_vote report_slot_reset) (bus_devs bus) ud,
      concat (map (visit_events report_slot_reset) (bus_devs bus)))"
  using pci_walk_bus_fold [of report_slot_reset "\<lambda>dev. dev", OF report_slot_reset_shape]
  by (simp add: map_bus_id)

lemma walk_resume:
  "pci_walk_bus report_resume bus ud =
     (False, map_bus set_normal bus, ud,
      concat (map (visit_events report_resume) (bus_devs bus)))"
  using pci_walk_bus_fold [of report_resume set_normal "\<lambda>dev ud. ud", OF report_resume_shape]
  by (simp add: fold_const)

lemma visit_set_normal [simp]:
  "visit_events report_mmio_enabled (set_normal dev) = visit_events report_mmio_enabled dev"
  "visit_events report_slot_reset (set_normal dev) = visit_events report_slot_reset dev"
  by (simp_all add: visit_events_def report_mmio_enabled_def report_slot_reset_def Let_def)

lemma visit_vote_mmio_set_normal [simp]:
  "visit_vote report_mmio_enabled (set_normal dev) = visit_vote report_mmio_enabled dev"
  by (rule ext) (simp add: visit_vote_def report_mmio_enabled_def Let_def)

lemma visit_vote_slot_reset_set_normal [simp]:
  "visit_vote report_slot_reset (set_normal dev) = visit_vote report_slot_reset dev"
  by (rule ext) (simp add: visit_vote_def report_slot_reset_def Let_def)

lemma visit_events_resume_set_normal [simp]:
  "visit_events report_resume (set_normal dev) = visit_events report_resume dev"
  by (simp add: visit_events_def report_resume_def set_normal_def pci_dev_set_io_state_def)

subsection \<open>The phases of the non-fatal run, with the walks evaluated\<close>

lemma nonfatal_detect_eq:
  "nonfatal_detect dev bus =
     (map_bus set_normal bus,
      (if fold (visit_vote report_normal_detected) (bus_devs bus) PCI_ERS_RESULT_CAN_RECOVER
            = PCI_ERS_RESULT_CAN_RECOVER
         then fold (visit_vote report_mmio_enabled) (bus_devs bus) PCI_ERS_RESULT_RECOVERED
       else fold (visit_vote report_normal_detected) (bus_devs bus) PCI_ERS_RESULT_CAN_RECOVER),
      Pci_dbg (dev_id dev) ''broadcast error_detected message'' #
      concat (map (visit_events report_normal_detected) (bus_devs bus)) @
      (if fold (visit_vote report_normal_detected) (bus_devs bus) PCI_ERS_RESULT_CAN_RECOVER
            = PCI_ERS_RESULT_CAN_RECOVER
       then Pci_dbg (dev_id dev) ''broadcast mmio_enabled message'' #
            concat (map (visit_events report_mmio_enabled) (bus_devs bus))
       else []))"
  by (simp add: nonfatal_detect_def walk_normal_detected walk_mmio_enabled bus_devs_map_bus
        comp_def fold_map)

lemma nonfatal_reset_eq:
  "nonfatal_reset ext dev (map_bus set_normal bus) status =
     (if status = PCI_ERS_RESULT_NEED_RESET then
        (if pci_reset_bus ext (dev_id dev) < 0 then
           (True, map_bus set_normal bus, PCI_ERS_RESULT_DISCONNECT,
            [Reset_bus (dev_id dev),
             Pci_err (dev_id dev) ''Failed to reset %d'' (pci_reset_bus ext (dev_id dev))])
         else
           (fold (visit_vote report_slot_reset) (bus_devs bus) PCI_ERS_RESULT_RECOVERED
              \<noteq> PCI_ERS_RESULT_RECOVERED,
            map_bus set_normal bus,
            fold (visit_vote report_slot_reset) (bus_devs bus) PCI_ERS_RESULT_RECOVERED,
            Reset_bus (dev_id dev) #
            Pci_dbg (dev_id dev) ''broadcast slot_reset message'' #
            concat (map (visit_events report_slot_reset) (bus_devs bus))))
      else (status \<noteq> PCI_ERS_RESULT_RECOVERED, map_bus set_normal bus, status, []))"
  by (simp add: nonfatal_reset_def walk_slot_reset bus_devs_map_bus comp_def fold_map Let_def)

subsection \<open>What the events of each visit can be\<close>

lemma visit_events_normal_detected_cases:
  "e \<in> set (visit_events report_normal_detected dev) \<Longrightarrow>
     e = Device_lock (dev_id dev) \<or> e = Device_unlock (dev_id dev) \<or>
     (\<exists>ok. e = Set_io_state (dev_id dev) pci_channel_io_normal ok) \<or>
     e = Call_error_detected (dev_id dev) pci_channel_io_normal \<or>
     (\<exists>m. e = Pci_info (dev_id dev) m) \<or> (\<exists>v. e = Uevent_ers (dev_id dev) v)"
  by (auto simp add: visit_events_def report_normal_detected_def report_error_detected_def
        pci_dev_set_io_state_def split: if_splits)

lemma visit_events_mmio_enabled_cases:
  "e \<in> set (visit_events report_mmio_enabled dev) \<Longrightarrow>
     e = Device_lock (dev_id dev) \<or> e = Device_unlock (dev_id dev) \<or>
     e = Call_mmio_enabled (dev_id dev)"
  by (auto simp add: visit_events_def report_mmio_enabled_def Let_def split: if_splits)

lemma visit_events_slot_reset_cases:
  "e \<in> set (visit_events report_slot_reset dev) \<Longrightarrow>
     e = Device_lock (dev_id dev) \<or> e = Device_unlock (dev_id dev) \<or>
     e = Call_slot_reset (dev_id dev)"
  by (auto simp add: visit_events_def report_slot_reset_def Let_def split: if_splits)

lemma visit_events_resume_cases:
  "e \<in> set (visit_events report_resume dev) \<Longrightarrow>
     e = Device_lock (dev_id dev) \<or> e = Device_unlock (dev_id dev) \<or>
     (\<exists>ok. e = Set_io_state (dev_id dev) pci_channel_io_normal ok) \<or>
     e = Call_resume (dev_id dev) \<or> (\<exists>v. e = Uevent_ers (dev_id dev) v)"
  by (auto simp add: visit_events_def report_resume_def pci_dev_set_io_state_def
        split: if_splits)

lemma detect_phase_events:
  assumes "nonfatal_detect dev bus = (bus2, status2, ev2)" and "e \<in> set ev2"
  shows "state_normal e \<and> \<not> removes_or_disconnects e \<and> \<not> slot_reset_or_resume e"
  using assms
  by (auto simp add: nonfatal_detect_eq state_normal_def split: if_splits
        dest!: visit_events_normal_detected_cases visit_events_mmio_enabled_cases)

lemma reset_phase_events:
  assumes "nonfatal_reset ext dev (map_bus set_normal bus) status = (failed, bus3, status3, ev3)"
    and "e \<in> set ev3"
  shows "state_normal e \<and> \<not> removes_or_disconnects e"
  using assms
  by (auto simp add: nonfatal_reset_eq state_normal_def split: if_splits
        dest!: visit_events_slot_reset_cases)

lemma resume_phase_events:
  assumes "e \<in> set (concat (map (visit_events report_resume) ds))"
  shows "state_normal e \<and> \<not> removes_or_disconnects e"
  using assms
  by (auto simp add: state_normal_def dest!: visit_events_resume_cases)

text \<open>The run, with its phases named.\<close>

lemma nonfatal_run_cases:
  assumes run: "pcie_do_nonfatal_recovery ext dev0 bus_self = Some (status, bus', tr)"
  obtains port bus status2 ev2 failed ev3 where
    "nonfatal_port dev0 bus_self = Some port" and "subordinate port = Some bus"
    and "nonfatal_detect (node_dev port) bus = (map_bus set_normal bus, status2, ev2)"
    and "nonfatal_reset ext (node_dev port) (map_bus set_normal bus) status2 =
           (failed, map_bus set_normal bus, status, ev3)"
    and "bus' = map_bus set_normal bus"
    and "failed \<longleftrightarrow> status \<noteq> PCI_ERS_RESULT_RECOVERED"
    and "failed \<Longrightarrow> tr = ev2 @ ev3 @
           [Uevent_ers (dev_id (node_dev port)) PCI_ERS_RESULT_DISCONNECT,
            Pci_info (dev_id (node_dev port)) ''device recovery failed'']"
    and "\<not> failed \<Longrightarrow> tr = ev2 @ ev3 @
           Pci_dbg (dev_id (node_dev port)) ''broadcast resume message'' #
           concat (map (visit_events report_resume) (bus_devs bus)) @
           (if pcie_aer_is_native ext (dev_id (node_dev port))
              then [Clear_device_status (dev_id (node_dev port))] else []) @
           [Aer_clear_nonfatal_status (dev_id (node_dev port)),
            Pci_info (dev_id (node_dev port)) ''device recovery successful'']"
proof -
  from run obtain port bus where port: "nonfatal_port dev0 bus_self = Some port"
    and bus: "subordinate port = Some bus"
    by (auto simp add: pcie_do_nonfatal_recovery_def split: option.splits)
  obtain bus2 status2 ev2 where d: "nonfatal_detect (node_dev port) bus = (bus2, status2, ev2)"
    by (cases "nonfatal_detect (node_dev port) bus") auto
  then have bus2: "bus2 = map_bus set_normal bus" by (simp add: nonfatal_detect_eq)
  obtain failed bus3 status3 ev3 where
    r: "nonfatal_reset ext (node_dev port) bus2 status2 = (failed, bus3, status3, ev3)"
    by (cases "nonfatal_reset ext (node_dev port) bus2 status2") auto
  then have bus3: "bus3 = map_bus set_normal bus"
    and f: "failed \<longleftrightarrow> status3 \<noteq> PCI_ERS_RESULT_RECOVERED"
    unfolding bus2 by (auto simp add: nonfatal_reset_eq split: if_splits)
  have st: "status = status3" and b': "bus' = map_bus set_normal bus"
    using run by (auto simp add: pcie_do_nonfatal_recovery_def port bus d r bus3 walk_resume
          Let_def split: if_splits)
  show thesis
  proof (rule that [OF port bus])
    show "nonfatal_detect (node_dev port) bus = (map_bus set_normal bus, status2, ev2)"
      using d bus2 by simp
    show "nonfatal_reset ext (node_dev port) (map_bus set_normal bus) status2 =
           (failed, map_bus set_normal bus, status, ev3)"
      using r bus2 bus3 st by simp
    show "bus' = map_bus set_normal bus" by (rule b')
    show "failed \<longleftrightarrow> status \<noteq> PCI_ERS_RESULT_RECOVERED" using f st by simp
    show "failed \<Longrightarrow> tr = ev2 @ ev3 @
           [Uevent_ers (dev_id (node_dev port)) PCI_ERS_RESULT_DISCONNECT,
            Pci_info (dev_id (node_dev port)) ''device recovery failed'']"
      using run by (simp add: pcie_do_nonfatal_recovery_def port bus d r Let_def)
    show "\<not> failed \<Longrightarrow> tr = ev2 @ ev3 @
           Pci_dbg (dev_id (node_dev port)) ''broadcast resume message'' #
           concat (map (visit_events report_resume) (bus_devs bus)) @
           (if pcie_aer_is_native ext (dev_id (node_dev port))
              then [Clear_device_status (dev_id (node_dev port))] else []) @
           [Aer_clear_nonfatal_status (dev_id (node_dev port)),
            Pci_info (dev_id (node_dev port)) ''device recovery successful'']"
      using run by (simp add: pcie_do_nonfatal_recovery_def port bus d r bus3 walk_resume
          bus_devs_map_bus comp_def Let_def)
  qed
qed

lemma nonfatal_run_events:
  assumes run: "pcie_do_nonfatal_recovery ext dev0 bus_self = Some (status, bus', tr)"
    and e: "e \<in> set tr"
  shows "state_normal e \<and> \<not> removes_or_disconnects e"
proof -
  obtain port bus status2 ev2 failed ev3 where
    port: "nonfatal_port dev0 bus_self = Some port" and bus: "subordinate port = Some bus"
    and d: "nonfatal_detect (node_dev port) bus = (map_bus set_normal bus, status2, ev2)"
    and r: "nonfatal_reset ext (node_dev port) (map_bus set_normal bus) status2 =
           (failed, map_bus set_normal bus, status, ev3)"
    and b': "bus' = map_bus set_normal bus"
    and f: "failed \<longleftrightarrow> status \<noteq> PCI_ERS_RESULT_RECOVERED"
    and t1: "failed \<Longrightarrow> tr = ev2 @ ev3 @
           [Uevent_ers (dev_id (node_dev port)) PCI_ERS_RESULT_DISCONNECT,
            Pci_info (dev_id (node_dev port)) ''device recovery failed'']"
    and t2: "\<not> failed \<Longrightarrow> tr = ev2 @ ev3 @
           Pci_dbg (dev_id (node_dev port)) ''broadcast resume message'' #
           concat (map (visit_events report_resume) (bus_devs bus)) @
           (if pcie_aer_is_native ext (dev_id (node_dev port))
              then [Clear_device_status (dev_id (node_dev port))] else []) @
           [Aer_clear_nonfatal_status (dev_id (node_dev port)),
            Pci_info (dev_id (node_dev port)) ''device recovery successful'']"
    by (rule nonfatal_run_cases [OF run]) (rule that)
  note p2 = detect_phase_events [OF d] and p3 = reset_phase_events [OF r]
    and p4 = resume_phase_events [of _ "bus_devs bus"]
  show ?thesis
  proof (cases failed)
    case True
    with t1 e have "e \<in> set ev2 \<or> e \<in> set ev3 \<or> state_normal e \<and> \<not> removes_or_disconnects e"
      by (auto simp add: state_normal_def)
    with p2 p3 show ?thesis by blast
  next
    case False
    with t2 e have "e \<in> set ev2 \<or> e \<in> set ev3 \<or>
        e \<in> set (concat (map (visit_events report_resume) (bus_devs bus))) \<or>
        state_normal e \<and> \<not> removes_or_disconnects e"
      by (auto simp add: state_normal_def split: if_splits)
    with p2 p3 p4 show ?thesis by blast
  qed
qed

lemma nonfatal_run_bus:
  assumes run: "pcie_do_nonfatal_recovery ext dev0 bus_self = Some (status, bus', tr)"
    and d: "d \<in> set (bus_devs bus')"
  shows "error_state d = pci_channel_io_normal \<or> error_state d = pci_channel_io_perm_failure"
proof -
  from run obtain bus where "bus' = map_bus set_normal bus"
    by (rule nonfatal_run_cases)
  with d show ?thesis by (auto simp add: bus_devs_map_bus)
qed

subsection \<open>The devices a walk visits\<close>

lemma visited_append: "visited (xs @ ys) = visited xs @ visited ys"
  by (induction xs) (simp_all split: event.splits)

lemma visited_normal_detected:
  "visited (visit_events report_normal_detected d) = [dev_id d]"
  by (simp add: visit_events_def report_normal_detected_def report_error_detected_def
        pci_dev_set_io_state_def)

lemma visited_concat_normal_detected:
  "visited (concat (map (visit_events report_normal_detected) ds)) = map dev_id ds"
  by (induction ds) (simp_all add: visited_append visited_normal_detected)

subsection \<open>A device that recovers\<close>

lemma success_device:
  assumes "error_state d \<noteq> pci_channel_io_perm_failure"
    and "driver d = Some drv" and "err_handler drv = Some h"
    and "error_detected h = Some ed"
    and "ed (dev_id d) pci_channel_io_normal = PCI_ERS_RESULT_CAN_RECOVER"
    and "mmio_enabled h = Some me" and "me (dev_id d) = PCI_ERS_RESULT_RECOVERED"
  shows "set_normal d = d\<lparr>error_state := pci_channel_io_normal\<rparr>"
    and "visit_vote report_normal_detected d PCI_ERS_RESULT_CAN_RECOVER = PCI_ERS_RESULT_CAN_RECOVER"
    and "visit_events report_normal_detected d =
           [Device_lock (dev_id d), Set_io_state (dev_id d) pci_channel_io_normal True,
            Call_error_detected (dev_id d) pci_channel_io_normal,
            Uevent_ers (dev_id d) PCI_ERS_RESULT_CAN_RECOVER, Device_unlock (dev_id d)]"
    and "visit_vote report_mmio_enabled d PCI_ERS_RESULT_RECOVERED = PCI_ERS_RESULT_RECOVERED"
    and "visit_events report_mmio_enabled d =
           [Device_lock (dev_id d), Call_mmio_enabled (dev_id d), Device_unlock (dev_id d)]"
    and "visit_events report_resume d =
           [Device_lock (dev_id d), Set_io_state (dev_id d) pci_channel_io_normal True] @
           (if resume (the (err_handler (the (driver d)))) = None then []
            else [Call_resume (dev_id d)]) @
           [Uevent_ers (dev_id d) PCI_ERS_RESULT_RECOVERED, Device_unlock (dev_id d)]"
  using assms
  by (simp_all add: set_normal_def pci_dev_set_io_state_def visit_vote_def visit_events_def
        report_normal_detected_def report_error_detected_def report_mmio_enabled_def
        report_resume_def merge_result_def)

subsection \<open>The walks and the loop of the fatal run\<close>

lemma pci_dev_set_disconnected_shape:
  "pci_dev_set_disconnected dev ud =
     (0, dev\<lparr>error_state := pci_channel_io_perm_failure\<rparr>, ud,
      [Device_lock (dev_id dev),
       Set_io_state (dev_id dev) pci_channel_io_perm_failure True,
       Device_unlock (dev_id dev)])"
  by (simp add: pci_dev_set_disconnected_def pci_dev_set_io_state_def)

lemma walk_set_disconnected:
  "pci_walk_bus pci_dev_set_disconnected bus () =
     (False, map_bus (\<lambda>dev. dev\<lparr>error_state := pci_channel_io_perm_failure\<rparr>) bus, (),
      concat (map (\<lambda>dev. [Device_lock (dev_id dev),
                           Set_io_state (dev_id dev) pci_channel_io_perm_failure True,
                           Device_unlock (dev_id dev)]) (bus_devs bus)))"
  using pci_walk_bus_fold [of pci_dev_set_disconnected _ "\<lambda>dev ud. ud", OF pci_dev_set_disconnected_shape]
  by simp

lemma stop_and_remove_bus_rev:
  "stop_and_remove_bus bus = map (\<lambda>d. Stop_and_remove (dev_id d)) (rev (bus_devs bus))"
  by (induction bus rule: bus_devs.induct) simp_all

lemma stop_and_remove_bus_concat:
  "stop_and_remove_bus bus = concat (map stop_and_remove_events (rev bus))"
  by (induction bus) simp_all

lemma remove_devices_reverse_eq:
  "remove_devices_reverse xs devices =
     (fold remove1 xs devices, concat (map stop_and_remove_events xs))"
  by (induction xs arbitrary: devices) (simp_all add: pci_stop_and_remove_bus_device_def)

lemma mset_fold_remove1: "mset (fold remove1 xs ys) = mset ys - mset xs"
  by (induction xs arbitrary: ys) simp_all

lemma fold_remove1_all: "fold remove1 (rev xs) xs = []"
proof -
  have "mset (fold remove1 (rev xs) xs) = {#}" by (simp add: mset_fold_remove1)
  then show ?thesis by simp
qed

lemma remove_devices_reverse_bus:
  "remove_devices_reverse (rev bus) bus =
     ([], map (\<lambda>d. Stop_and_remove (dev_id d)) (rev (bus_devs bus)))"
  by (simp add: remove_devices_reverse_eq fold_remove1_all
        stop_and_remove_bus_concat [symmetric] stop_and_remove_bus_rev)

subsection \<open>Unfolding the examples\<close>

lemmas example_defs =
  example_driver_def example_endpoint_def example_bridge_def example_port_def example_ext_def
  example_subtree_def example_single_def
  PCI_HEADER_TYPE_BRIDGE_def PCI_EXP_TYPE_ROOT_PORT_def PCI_EXP_TYPE_DOWNSTREAM_def

lemmas nonfatal_defs =
  pcie_do_nonfatal_recovery_def nonfatal_port_def nonfatal_detect_def nonfatal_reset_def
  report_normal_detected_def report_error_detected_def report_mmio_enabled_def
  report_slot_reset_def report_resume_def pci_dev_set_io_state_def merge_result_def Let_def

section \<open>Properties of merge_result\<close>

text \<open>
  C4. For every vote v, merging an incoming NO_DRIVER vote into v gives NO_DRIVER.
\<close>

theorem merge_result_no_aer_driver:
  "merge_result v PCI_ERS_RESULT_NO_AER_DRIVER = PCI_ERS_RESULT_NO_AER_DRIVER"
  by (simp add: merge_result_def)

text \<open>
  C9. For every vote v, merging an incoming NONE vote into v gives v back.
\<close>

theorem merge_result_none:
  "merge_result v PCI_ERS_RESULT_NONE = v"
  by (simp add: merge_result_def)

text \<open>
  C5. For an incoming vote that is neither NONE nor NO_DRIVER: a current vote of
  CAN_RECOVER or RECOVERED is replaced by the incoming vote; a current vote of DISCONNECT
  becomes NEED_RESET when the incoming vote is NEED_RESET and stays DISCONNECT otherwise
  (so merging CAN_RECOVER into DISCONNECT gives DISCONNECT); every other current vote is
  returned unchanged.
\<close>

theorem merge_result_other:
  "incoming \<noteq> PCI_ERS_RESULT_NONE \<Longrightarrow> incoming \<noteq> PCI_ERS_RESULT_NO_AER_DRIVER \<Longrightarrow>
     merge_result current incoming =
       (if current = PCI_ERS_RESULT_CAN_RECOVER \<or> current = PCI_ERS_RESULT_RECOVERED
          then incoming
        else if current = PCI_ERS_RESULT_DISCONNECT
          then (if incoming = PCI_ERS_RESULT_NEED_RESET
                  then PCI_ERS_RESULT_NEED_RESET else PCI_ERS_RESULT_DISCONNECT)
        else current)"
  by (cases current) (simp_all add: merge_result_def)

theorem merge_result_other_witness:
  "PCI_ERS_RESULT_CAN_RECOVER \<noteq> PCI_ERS_RESULT_NONE
   \<and> PCI_ERS_RESULT_CAN_RECOVER \<noteq> PCI_ERS_RESULT_NO_AER_DRIVER
   \<and> merge_result PCI_ERS_RESULT_DISCONNECT PCI_ERS_RESULT_CAN_RECOVER
       = PCI_ERS_RESULT_DISCONNECT"
proof -
  have h1: "PCI_ERS_RESULT_CAN_RECOVER \<noteq> PCI_ERS_RESULT_NONE" by simp
  have h2: "PCI_ERS_RESULT_CAN_RECOVER \<noteq> PCI_ERS_RESULT_NO_AER_DRIVER" by simp
  show ?thesis
    using h1 h2 merge_result_other [OF h1 h2, of PCI_ERS_RESULT_DISCONNECT] by simp
qed

section \<open>The error_detected callback\<close>

text \<open>
  C3. In the error_detected phase, a device with no bound driver, no handler, or a
  handler without the error_detected operation contributes the vote NO_DRIVER and has
  the "can't recover" message logged when it is not a bridge, and contributes the vote
  NONE when it is a bridge: that vote is what is merged into the running vote and what
  is notified, and no handler is called.
\<close>

theorem report_error_detected_no_handler:
  assumes none: "case driver dev of None \<Rightarrow> True
                 | Some drv \<Rightarrow> (case err_handler drv of None \<Rightarrow> True
                                | Some h \<Rightarrow> error_detected h = None)"
  shows "report_error_detected dev state result =
           (0, snd (pci_dev_set_io_state dev state),
            merge_result result
              (if hdr_type dev \<noteq> PCI_HEADER_TYPE_BRIDGE then PCI_ERS_RESULT_NO_AER_DRIVER
               else PCI_ERS_RESULT_NONE),
            [Device_lock (dev_id dev),
             Set_io_state (dev_id dev) state (fst (pci_dev_set_io_state dev state))] @
            (if hdr_type dev \<noteq> PCI_HEADER_TYPE_BRIDGE
               then [Pci_info (dev_id dev) ''can't recover (no error_detected callback)'']
             else []) @
            [Uevent_ers (dev_id dev)
               (if hdr_type dev \<noteq> PCI_HEADER_TYPE_BRIDGE then PCI_ERS_RESULT_NO_AER_DRIVER
                else PCI_ERS_RESULT_NONE),
             Device_unlock (dev_id dev)])"
  using none
  by (auto simp add: report_error_detected_def pci_dev_set_io_state_def
        split: option.splits)

theorem report_error_detected_no_handler_witness:
  "report_error_detected (example_endpoint 1 pci_channel_io_normal None)
       pci_channel_io_frozen PCI_ERS_RESULT_CAN_RECOVER =
     (0, example_endpoint 1 pci_channel_io_frozen None, PCI_ERS_RESULT_NO_AER_DRIVER,
      [Device_lock 1, Set_io_state 1 pci_channel_io_frozen True,
       Pci_info 1 ''can't recover (no error_detected callback)'',
       Uevent_ers 1 PCI_ERS_RESULT_NO_AER_DRIVER, Device_unlock 1]) \<and>
   report_error_detected (example_bridge 2 pci_channel_io_normal None)
       pci_channel_io_frozen PCI_ERS_RESULT_CAN_RECOVER =
     (0, example_bridge 2 pci_channel_io_frozen None, PCI_ERS_RESULT_CAN_RECOVER,
      [Device_lock 2, Set_io_state 2 pci_channel_io_frozen True,
       Uevent_ers 2 PCI_ERS_RESULT_NONE, Device_unlock 2])"
proof -
  have h1: "case driver (example_endpoint 1 pci_channel_io_normal None) of None \<Rightarrow> True
            | Some drv \<Rightarrow> (case err_handler drv of None \<Rightarrow> True
                           | Some h \<Rightarrow> error_detected h = None)"
    by (simp add: example_endpoint_def)
  have h2: "case driver (example_bridge 2 pci_channel_io_normal None) of None \<Rightarrow> True
            | Some drv \<Rightarrow> (case err_handler drv of None \<Rightarrow> True
                           | Some h \<Rightarrow> error_detected h = None)"
    by (simp add: example_bridge_def)
  show ?thesis
    using report_error_detected_no_handler
            [OF h1, of pci_channel_io_frozen PCI_ERS_RESULT_CAN_RECOVER]
          report_error_detected_no_handler
            [OF h2, of pci_channel_io_frozen PCI_ERS_RESULT_CAN_RECOVER]
    by (simp add: example_defs pci_dev_set_io_state_def merge_result_def)
qed

text \<open>
  C2, as amended. In the error_detected phase, when the channel-state set fails because
  the device is already PERM_FAILURE, the handler of the device is not called and the
  device is treated as one without a handler: a bridge contributes the vote NONE, which
  leaves the running vote unchanged, and a device that is not a bridge contributes the
  vote NO_DRIVER, which makes the running vote NO_DRIVER. The callback returns 0, so the
  walk is not stopped: whatever bus is walked, every device of it is visited, in
  discovery order.
\<close>

theorem report_error_detected_set_fails:
  assumes perm: "error_state dev = pci_channel_io_perm_failure"
    and state: "state \<noteq> pci_channel_io_perm_failure"
  shows "pci_dev_set_io_state dev state = (False, dev) \<and>
         report_error_detected dev state result =
           (0, dev,
            merge_result result
              (if hdr_type dev \<noteq> PCI_HEADER_TYPE_BRIDGE then PCI_ERS_RESULT_NO_AER_DRIVER
               else PCI_ERS_RESULT_NONE),
            [Device_lock (dev_id dev), Set_io_state (dev_id dev) state False] @
            (if hdr_type dev \<noteq> PCI_HEADER_TYPE_BRIDGE
               then [Pci_info (dev_id dev) ''can't recover (no error_detected callback)'']
             else []) @
            [Uevent_ers (dev_id dev)
               (if hdr_type dev \<noteq> PCI_HEADER_TYPE_BRIDGE then PCI_ERS_RESULT_NO_AER_DRIVER
                else PCI_ERS_RESULT_NONE),
             Device_unlock (dev_id dev)]) \<and>
         fst (snd (snd (report_error_detected dev state result))) =
           (if hdr_type dev \<noteq> PCI_HEADER_TYPE_BRIDGE then PCI_ERS_RESULT_NO_AER_DRIVER
            else result) \<and>
         (\<forall>bus.
            fst (pci_walk_bus report_normal_detected bus result) = False \<and>
            visited (snd (snd (snd (pci_walk_bus report_normal_detected bus result)))) =
              map dev_id (bus_devs bus))"
  using perm state
  by (simp add: report_error_detected_def pci_dev_set_io_state_def merge_result_def
        walk_normal_detected visited_concat_normal_detected)

theorem report_error_detected_set_fails_witness:
  "report_error_detected (example_bridge 1 pci_channel_io_perm_failure (Some (example_driver PCI_ERS_RESULT_CAN_RECOVER PCI_ERS_RESULT_RECOVERED)))
       pci_channel_io_normal PCI_ERS_RESULT_CAN_RECOVER =
     (0, example_bridge 1 pci_channel_io_perm_failure (Some (example_driver PCI_ERS_RESULT_CAN_RECOVER PCI_ERS_RESULT_RECOVERED)), PCI_ERS_RESULT_CAN_RECOVER,
      [Device_lock 1, Set_io_state 1 pci_channel_io_normal False,
       Uevent_ers 1 PCI_ERS_RESULT_NONE, Device_unlock 1]) \<and>
   visited (snd (snd (snd (pci_walk_bus report_normal_detected
       [PciNode (example_bridge 1 pci_channel_io_perm_failure (Some (example_driver PCI_ERS_RESULT_CAN_RECOVER PCI_ERS_RESULT_RECOVERED))) None,
        PciNode (example_endpoint 2 pci_channel_io_normal (Some (example_driver PCI_ERS_RESULT_CAN_RECOVER PCI_ERS_RESULT_RECOVERED))) None]
       PCI_ERS_RESULT_CAN_RECOVER)))) = [1, 2]"
proof -
  have h1: "error_state (example_bridge 1 pci_channel_io_perm_failure (Some (example_driver PCI_ERS_RESULT_CAN_RECOVER PCI_ERS_RESULT_RECOVERED)))
              = pci_channel_io_perm_failure"
    by (simp add: example_bridge_def)
  have h2: "pci_channel_io_normal \<noteq> pci_channel_io_perm_failure" by simp
  note fails = report_error_detected_set_fails [OF h1 h2, of PCI_ERS_RESULT_CAN_RECOVER]
  have visit: "report_error_detected
           (example_bridge 1 pci_channel_io_perm_failure (Some (example_driver PCI_ERS_RESULT_CAN_RECOVER PCI_ERS_RESULT_RECOVERED)))
           pci_channel_io_normal PCI_ERS_RESULT_CAN_RECOVER =
         (0, example_bridge 1 pci_channel_io_perm_failure (Some (example_driver PCI_ERS_RESULT_CAN_RECOVER PCI_ERS_RESULT_RECOVERED)), PCI_ERS_RESULT_CAN_RECOVER,
          [Device_lock 1, Set_io_state 1 pci_channel_io_normal False,
           Uevent_ers 1 PCI_ERS_RESULT_NONE, Device_unlock 1])"
    using fails by (simp add: example_defs merge_result_def)
  have walk: "visited (snd (snd (snd (pci_walk_bus report_normal_detected
       [PciNode (example_bridge 1 pci_channel_io_perm_failure (Some (example_driver PCI_ERS_RESULT_CAN_RECOVER PCI_ERS_RESULT_RECOVERED))) None,
        PciNode (example_endpoint 2 pci_channel_io_normal (Some (example_driver PCI_ERS_RESULT_CAN_RECOVER PCI_ERS_RESULT_RECOVERED))) None]
       PCI_ERS_RESULT_CAN_RECOVER)))) =
     map dev_id (bus_devs
       [PciNode (example_bridge 1 pci_channel_io_perm_failure (Some (example_driver PCI_ERS_RESULT_CAN_RECOVER PCI_ERS_RESULT_RECOVERED))) None,
        PciNode (example_endpoint 2 pci_channel_io_normal (Some (example_driver PCI_ERS_RESULT_CAN_RECOVER PCI_ERS_RESULT_RECOVERED))) None])"
    using fails by blast
  show ?thesis
    unfolding visit walk by (simp add: example_defs)
qed

text \<open>
  C2 as stated fails: an endpoint that is already PERM_FAILURE, with a driver whose
  handlers are all present, turns the running vote CAN_RECOVER into NO_DRIVER.
\<close>

theorem report_error_detected_set_fails_counterexample:
  "pci_dev_set_io_state (example_endpoint 1 pci_channel_io_perm_failure (Some (example_driver PCI_ERS_RESULT_CAN_RECOVER PCI_ERS_RESULT_RECOVERED)))
       pci_channel_io_normal =
     (False, example_endpoint 1 pci_channel_io_perm_failure (Some (example_driver PCI_ERS_RESULT_CAN_RECOVER PCI_ERS_RESULT_RECOVERED))) \<and>
   report_error_detected (example_endpoint 1 pci_channel_io_perm_failure (Some (example_driver PCI_ERS_RESULT_CAN_RECOVER PCI_ERS_RESULT_RECOVERED)))
       pci_channel_io_normal PCI_ERS_RESULT_CAN_RECOVER =
     (0, example_endpoint 1 pci_channel_io_perm_failure (Some (example_driver PCI_ERS_RESULT_CAN_RECOVER PCI_ERS_RESULT_RECOVERED)), PCI_ERS_RESULT_NO_AER_DRIVER,
      [Device_lock 1, Set_io_state 1 pci_channel_io_normal False,
       Pci_info 1 ''can't recover (no error_detected callback)'',
       Uevent_ers 1 PCI_ERS_RESULT_NO_AER_DRIVER, Device_unlock 1]) \<and>
   PCI_ERS_RESULT_NO_AER_DRIVER \<noteq> PCI_ERS_RESULT_CAN_RECOVER"
  by (simp add: example_defs report_error_detected_def pci_dev_set_io_state_def
        merge_result_def)

section \<open>Non-fatal recovery\<close>

text \<open>
  C1, as amended. For every subtree in which no device is in channel state PERM_FAILURE
  when the run starts and each device has a bound handler whose error_detected returns
  CAN_RECOVER and whose mmio_enabled returns RECOVERED, pcie_do_nonfatal_recovery runs
  the error_detected broadcast, then the mmio_enabled broadcast, then the resume
  broadcast, each over every device in discovery order, returns the vote RECOVERED, and
  leaves every device's channel state NORMAL.
\<close>

theorem nonfatal_success_path:
  assumes port: "nonfatal_port dev0 bus_self = Some port"
    and bus: "subordinate port = Some bus"
    and devs: "\<forall>d\<in>set (bus_devs bus).
         error_state d \<noteq> pci_channel_io_perm_failure \<and>
         (\<exists>drv h ed me.
            driver d = Some drv \<and> err_handler drv = Some h \<and>
            error_detected h = Some ed \<and>
            ed (dev_id d) pci_channel_io_normal = PCI_ERS_RESULT_CAN_RECOVER \<and>
            mmio_enabled h = Some me \<and> me (dev_id d) = PCI_ERS_RESULT_RECOVERED)"
  shows
    "let p = dev_id (node_dev port);
         bus' = map_bus (\<lambda>d. d\<lparr>error_state := pci_channel_io_normal\<rparr>) bus;
         detected = concat (map (\<lambda>d. [Device_lock (dev_id d),
                                        Set_io_state (dev_id d) pci_channel_io_normal True,
                                        Call_error_detected (dev_id d) pci_channel_io_normal,
                                        Uevent_ers (dev_id d) PCI_ERS_RESULT_CAN_RECOVER,
                                        Device_unlock (dev_id d)]) (bus_devs bus));
         mmio = concat (map (\<lambda>d. [Device_lock (dev_id d), Call_mmio_enabled (dev_id d),
                                    Device_unlock (dev_id d)]) (bus_devs bus));
         resumed = concat (map (\<lambda>d. [Device_lock (dev_id d),
                                       Set_io_state (dev_id d) pci_channel_io_normal True] @
                                      (if resume (the (err_handler (the (driver d)))) = None
                                         then [] else [Call_resume (dev_id d)]) @
                                      [Uevent_ers (dev_id d) PCI_ERS_RESULT_RECOVERED,
                                       Device_unlock (dev_id d)]) (bus_devs bus))
     in pci_walk_bus report_normal_detected bus PCI_ERS_RESULT_CAN_RECOVER =
          (False, bus', PCI_ERS_RESULT_CAN_RECOVER, detected) \<and>
        pci_walk_bus report_mmio_enabled bus' PCI_ERS_RESULT_RECOVERED =
          (False, bus', PCI_ERS_RESULT_RECOVERED, mmio) \<and>
        pci_walk_bus report_resume bus' PCI_ERS_RESULT_RECOVERED =
          (False, bus', PCI_ERS_RESULT_RECOVERED, resumed) \<and>
        pcie_do_nonfatal_recovery ext dev0 bus_self =
          Some (PCI_ERS_RESULT_RECOVERED, bus',
                Pci_dbg p ''broadcast error_detected message'' # detected @
                Pci_dbg p ''broadcast mmio_enabled message'' # mmio @
                Pci_dbg p ''broadcast resume message'' # resumed @
                (if pcie_aer_is_native ext p then [Clear_device_status p] else []) @
                [Aer_clear_nonfatal_status p, Pci_info p ''device recovery successful'']) \<and>
        (\<forall>d\<in>set (bus_devs bus'). error_state d = pci_channel_io_normal)"
proof -
  let ?devs = "bus_devs bus"
  have b: "map_bus set_normal bus = map_bus (\<lambda>d. d\<lparr>error_state := pci_channel_io_normal\<rparr>) bus"
    using devs by (intro map_bus_cong_devs) (auto simp add: success_device(1))
  have v1: "fold (visit_vote report_normal_detected) ?devs PCI_ERS_RESULT_CAN_RECOVER
              = PCI_ERS_RESULT_CAN_RECOVER"
    using devs by (intro fold_fixed) (auto simp add: success_device(2))
  have v2: "fold (visit_vote report_mmio_enabled) ?devs PCI_ERS_RESULT_RECOVERED
              = PCI_ERS_RESULT_RECOVERED"
    using devs by (intro fold_fixed) (auto simp add: success_device(4))
  have e1: "map (visit_events report_normal_detected) ?devs =
            map (\<lambda>d. [Device_lock (dev_id d),
                              Set_io_state (dev_id d) pci_channel_io_normal True,
                              Call_error_detected (dev_id d) pci_channel_io_normal,
                              Uevent_ers (dev_id d) PCI_ERS_RESULT_CAN_RECOVER,
                              Device_unlock (dev_id d)]) ?devs"
    using devs by (intro map_cong) (auto simp add: success_device(3))
  have e2: "map (visit_events report_mmio_enabled) ?devs =
            map (\<lambda>d. [Device_lock (dev_id d), Call_mmio_enabled (dev_id d),
                              Device_unlock (dev_id d)]) ?devs"
    using devs by (intro map_cong) (auto simp add: success_device(5))
  have e3: "map (visit_events report_resume) ?devs =
            map (\<lambda>d. [Device_lock (dev_id d),
                              Set_io_state (dev_id d) pci_channel_io_normal True] @
                             (if resume (the (err_handler (the (driver d)))) = None then []
                              else [Call_resume (dev_id d)]) @
                             [Uevent_ers (dev_id d) PCI_ERS_RESULT_RECOVERED,
                              Device_unlock (dev_id d)]) ?devs"
    using devs by (intro map_cong) (auto simp add: success_device(6))
  have d: "nonfatal_detect (node_dev port) bus =
             (map_bus set_normal bus, PCI_ERS_RESULT_RECOVERED,
              Pci_dbg (dev_id (node_dev port)) ''broadcast error_detected message'' #
              concat (map (visit_events report_normal_detected) ?devs) @
              Pci_dbg (dev_id (node_dev port)) ''broadcast mmio_enabled message'' #
              concat (map (visit_events report_mmio_enabled) ?devs))"
    by (simp add: nonfatal_detect_eq v1 v2)
  have r: "nonfatal_reset ext (node_dev port) (map_bus set_normal bus) PCI_ERS_RESULT_RECOVERED =
             (False, map_bus set_normal bus, PCI_ERS_RESULT_RECOVERED, [])"
    by (simp add: nonfatal_reset_eq)
  have run: "pcie_do_nonfatal_recovery ext dev0 bus_self =
     Some (PCI_ERS_RESULT_RECOVERED, map_bus set_normal bus,
           Pci_dbg (dev_id (node_dev port)) ''broadcast error_detected message'' #
           concat (map (visit_events report_normal_detected) ?devs) @
           Pci_dbg (dev_id (node_dev port)) ''broadcast mmio_enabled message'' #
           concat (map (visit_events report_mmio_enabled) ?devs) @
           Pci_dbg (dev_id (node_dev port)) ''broadcast resume message'' #
           concat (map (visit_events report_resume) ?devs) @
           (if pcie_aer_is_native ext (dev_id (node_dev port))
              then [Clear_device_status (dev_id (node_dev port))] else []) @
           [Aer_clear_nonfatal_status (dev_id (node_dev port)),
            Pci_info (dev_id (node_dev port)) ''device recovery successful''])"
    by (simp add: pcie_do_nonfatal_recovery_def port bus d r walk_resume bus_devs_map_bus
          comp_def Let_def)
  have w1: "pci_walk_bus report_normal_detected bus PCI_ERS_RESULT_CAN_RECOVER =
              (False, map_bus set_normal bus, PCI_ERS_RESULT_CAN_RECOVER,
               concat (map (visit_events report_normal_detected) ?devs))"
    by (simp add: walk_normal_detected v1)
  have w2: "pci_walk_bus report_mmio_enabled (map_bus set_normal bus) PCI_ERS_RESULT_RECOVERED =
              (False, map_bus set_normal bus, PCI_ERS_RESULT_RECOVERED,
               concat (map (visit_events report_mmio_enabled) ?devs))"
    by (simp add: walk_mmio_enabled bus_devs_map_bus fold_map comp_def v2)
  have w3: "pci_walk_bus report_resume (map_bus set_normal bus) PCI_ERS_RESULT_RECOVERED =
              (False, map_bus set_normal bus, PCI_ERS_RESULT_RECOVERED,
               concat (map (visit_events report_resume) ?devs))"
    by (simp add: walk_resume bus_devs_map_bus comp_def)
  show ?thesis
    using run w1 w2 w3 unfolding Let_def b e1 e2 e3 by (simp add: bus_devs_map_bus)
qed

theorem nonfatal_success_path_witness:
  "pcie_do_nonfatal_recovery (example_ext 0)
       (example_port (example_subtree pci_channel_io_frozen (Some (example_driver PCI_ERS_RESULT_CAN_RECOVER PCI_ERS_RESULT_RECOVERED)))) None =
     Some (PCI_ERS_RESULT_RECOVERED,
           example_subtree pci_channel_io_normal (Some (example_driver PCI_ERS_RESULT_CAN_RECOVER PCI_ERS_RESULT_RECOVERED)),
           [Pci_dbg 0 ''broadcast error_detected message'',
            Device_lock 1, Set_io_state 1 pci_channel_io_normal True,
            Call_error_detected 1 pci_channel_io_normal,
            Uevent_ers 1 PCI_ERS_RESULT_CAN_RECOVER, Device_unlock 1,
            Device_lock 2, Set_io_state 2 pci_channel_io_normal True,
            Call_error_detected 2 pci_channel_io_normal,
            Uevent_ers 2 PCI_ERS_RESULT_CAN_RECOVER, Device_unlock 2,
            Pci_dbg 0 ''broadcast mmio_enabled message'',
            Device_lock 1, Call_mmio_enabled 1, Device_unlock 1,
            Device_lock 2, Call_mmio_enabled 2, Device_unlock 2,
            Pci_dbg 0 ''broadcast resume message'',
            Device_lock 1, Set_io_state 1 pci_channel_io_normal True, Call_resume 1,
            Uevent_ers 1 PCI_ERS_RESULT_RECOVERED, Device_unlock 1,
            Device_lock 2, Set_io_state 2 pci_channel_io_normal True, Call_resume 2,
            Uevent_ers 2 PCI_ERS_RESULT_RECOVERED, Device_unlock 2,
            Clear_device_status 0, Aer_clear_nonfatal_status 0,
            Pci_info 0 ''device recovery successful''])"
proof -
  let ?bus = "example_subtree pci_channel_io_frozen (Some (example_driver PCI_ERS_RESULT_CAN_RECOVER PCI_ERS_RESULT_RECOVERED))"
  have port: "nonfatal_port (example_port ?bus) None = Some (example_port ?bus)"
    by (simp add: nonfatal_port_def example_port_def)
  have bus: "subordinate (example_port ?bus) = Some ?bus"
    by (simp add: example_port_def)
  have devs: "\<forall>d\<in>set (bus_devs ?bus).
         error_state d \<noteq> pci_channel_io_perm_failure \<and>
         (\<exists>drv h ed me.
            driver d = Some drv \<and> err_handler drv = Some h \<and>
            error_detected h = Some ed \<and>
            ed (dev_id d) pci_channel_io_normal = PCI_ERS_RESULT_CAN_RECOVER \<and>
            mmio_enabled h = Some me \<and> me (dev_id d) = PCI_ERS_RESULT_RECOVERED)"
    by (simp add: example_defs)
  show ?thesis
    using nonfatal_success_path [OF port bus devs, of "example_ext 0"]
    by (simp add: example_defs Let_def)
qed

text \<open>
  C1 as stated fails: the one endpoint below the port has a bound handler whose
  error_detected returns CAN_RECOVER and whose mmio_enabled returns RECOVERED, but it is
  already PERM_FAILURE. Its handler is not called, the run returns NO_DRIVER after the
  error_detected broadcast alone, and the device stays PERM_FAILURE.
\<close>

theorem nonfatal_success_path_counterexample:
  "bus_devs (example_single pci_channel_io_perm_failure (Some (example_driver PCI_ERS_RESULT_CAN_RECOVER PCI_ERS_RESULT_RECOVERED))) =
     [example_endpoint 1 pci_channel_io_perm_failure (Some (example_driver PCI_ERS_RESULT_CAN_RECOVER PCI_ERS_RESULT_RECOVERED))] \<and>
   driver (example_endpoint 1 pci_channel_io_perm_failure (Some (example_driver PCI_ERS_RESULT_CAN_RECOVER PCI_ERS_RESULT_RECOVERED))) = (Some (example_driver PCI_ERS_RESULT_CAN_RECOVER PCI_ERS_RESULT_RECOVERED)) \<and>
   the (error_detected (the (err_handler
        (example_driver PCI_ERS_RESULT_CAN_RECOVER PCI_ERS_RESULT_RECOVERED))))
      1 pci_channel_io_normal = PCI_ERS_RESULT_CAN_RECOVER \<and>
   the (mmio_enabled (the (err_handler
        (example_driver PCI_ERS_RESULT_CAN_RECOVER PCI_ERS_RESULT_RECOVERED))))
      1 = PCI_ERS_RESULT_RECOVERED \<and>
   pcie_do_nonfatal_recovery (example_ext 0)
       (example_port (example_single pci_channel_io_perm_failure (Some (example_driver PCI_ERS_RESULT_CAN_RECOVER PCI_ERS_RESULT_RECOVERED)))) None =
     Some (PCI_ERS_RESULT_NO_AER_DRIVER,
           example_single pci_channel_io_perm_failure (Some (example_driver PCI_ERS_RESULT_CAN_RECOVER PCI_ERS_RESULT_RECOVERED)),
           [Pci_dbg 0 ''broadcast error_detected message'',
            Device_lock 1, Set_io_state 1 pci_channel_io_normal False,
            Pci_info 1 ''can't recover (no error_detected callback)'',
            Uevent_ers 1 PCI_ERS_RESULT_NO_AER_DRIVER, Device_unlock 1,
            Uevent_ers 0 PCI_ERS_RESULT_DISCONNECT,
            Pci_info 0 ''device recovery failed''])"
  by (simp add: example_defs nonfatal_defs)

text \<open>
  C6. Whenever the vote after the error_detected and mmio_enabled phases is NEED_RESET,
  pci_reset_bus is called on the port. If it fails (a negative result), the run returns
  DISCONNECT and ends with the disconnect notification and the failure message, right
  after the failed reset: no slot_reset or resume broadcast is in the run. If it
  succeeds, the slot_reset broadcast follows the reset, with the initial vote RECOVERED.
\<close>

theorem nonfatal_need_reset:
  assumes port: "nonfatal_port dev0 bus_self = Some port"
    and bus: "subordinate port = Some bus"
    and detect: "nonfatal_detect (node_dev port) bus = (bus2, PCI_ERS_RESULT_NEED_RESET, ev2)"
  shows "(pci_reset_bus ext (dev_id (node_dev port)) < 0 \<longrightarrow>
            pcie_do_nonfatal_recovery ext dev0 bus_self =
              Some (PCI_ERS_RESULT_DISCONNECT, bus2,
                    ev2 @
                    [Reset_bus (dev_id (node_dev port)),
                     Pci_err (dev_id (node_dev port)) ''Failed to reset %d''
                       (pci_reset_bus ext (dev_id (node_dev port))),
                     Uevent_ers (dev_id (node_dev port)) PCI_ERS_RESULT_DISCONNECT,
                     Pci_info (dev_id (node_dev port)) ''device recovery failed'']) \<and>
            (\<forall>e\<in>set ev2. \<not> slot_reset_or_resume e)) \<and>
         (\<not> pci_reset_bus ext (dev_id (node_dev port)) < 0 \<longrightarrow>
            (\<exists>stop3 bus3 status3 ev3 bus' rest.
               pci_walk_bus report_slot_reset bus2 PCI_ERS_RESULT_RECOVERED =
                 (stop3, bus3, status3, ev3) \<and>
               pcie_do_nonfatal_recovery ext dev0 bus_self =
                 Some (status3, bus',
                       ev2 @
                       Reset_bus (dev_id (node_dev port)) #
                       Pci_dbg (dev_id (node_dev port)) ''broadcast slot_reset message'' #
                       ev3 @ rest)))"
proof -
  have ev2: "\<forall>e\<in>set ev2. \<not> slot_reset_or_resume e"
    using detect_phase_events [OF detect] by blast
  have bus2: "bus2 = map_bus set_normal bus" using detect by (simp add: nonfatal_detect_eq)
  show ?thesis
    using ev2
    by (auto simp add: pcie_do_nonfatal_recovery_def port bus detect nonfatal_reset_def
          walk_slot_reset walk_resume Let_def)
qed

theorem nonfatal_need_reset_witness:
  "pcie_do_nonfatal_recovery (example_ext (- 1))
       (example_port (example_single pci_channel_io_normal
          (Some (example_driver PCI_ERS_RESULT_NEED_RESET PCI_ERS_RESULT_RECOVERED)))) None =
     Some (PCI_ERS_RESULT_DISCONNECT,
           example_single pci_channel_io_normal
             (Some (example_driver PCI_ERS_RESULT_NEED_RESET PCI_ERS_RESULT_RECOVERED)),
           [Pci_dbg 0 ''broadcast error_detected message'',
            Device_lock 1, Set_io_state 1 pci_channel_io_normal True,
            Call_error_detected 1 pci_channel_io_normal,
            Uevent_ers 1 PCI_ERS_RESULT_NEED_RESET, Device_unlock 1,
            Reset_bus 0, Pci_err 0 ''Failed to reset %d'' (- 1),
            Uevent_ers 0 PCI_ERS_RESULT_DISCONNECT,
            Pci_info 0 ''device recovery failed'']) \<and>
   pcie_do_nonfatal_recovery (example_ext 0)
       (example_port (example_single pci_channel_io_normal
          (Some (example_driver PCI_ERS_RESULT_NEED_RESET PCI_ERS_RESULT_RECOVERED)))) None =
     Some (PCI_ERS_RESULT_RECOVERED,
           example_single pci_channel_io_normal
             (Some (example_driver PCI_ERS_RESULT_NEED_RESET PCI_ERS_RESULT_RECOVERED)),
           [Pci_dbg 0 ''broadcast error_detected message'',
            Device_lock 1, Set_io_state 1 pci_channel_io_normal True,
            Call_error_detected 1 pci_channel_io_normal,
            Uevent_ers 1 PCI_ERS_RESULT_NEED_RESET, Device_unlock 1,
            Reset_bus 0, Pci_dbg 0 ''broadcast slot_reset message'',
            Device_lock 1, Call_slot_reset 1, Device_unlock 1,
            Pci_dbg 0 ''broadcast resume message'',
            Device_lock 1, Set_io_state 1 pci_channel_io_normal True, Call_resume 1,
            Uevent_ers 1 PCI_ERS_RESULT_RECOVERED, Device_unlock 1,
            Clear_device_status 0, Aer_clear_nonfatal_status 0,
            Pci_info 0 ''device recovery successful''])"
proof -
  let ?bus = "example_single pci_channel_io_normal
                (Some (example_driver PCI_ERS_RESULT_NEED_RESET PCI_ERS_RESULT_RECOVERED))"
  let ?ev = "[Pci_dbg 0 ''broadcast error_detected message'',
              Device_lock 1, Set_io_state 1 pci_channel_io_normal True,
              Call_error_detected 1 pci_channel_io_normal,
              Uevent_ers 1 PCI_ERS_RESULT_NEED_RESET, Device_unlock 1]"
  have port: "nonfatal_port (example_port ?bus) None = Some (example_port ?bus)"
    by (simp add: nonfatal_port_def example_port_def)
  have bus: "subordinate (example_port ?bus) = Some ?bus"
    by (simp add: example_port_def)
  have detect: "nonfatal_detect (node_dev (example_port ?bus)) ?bus =
                  (?bus, PCI_ERS_RESULT_NEED_RESET, ?ev)"
    by (simp add: example_defs nonfatal_defs)
  show ?thesis
    using nonfatal_need_reset [OF port bus detect, of "example_ext (- 1)"]
          nonfatal_need_reset [OF port bus detect, of "example_ext 0"]
    by (simp add: example_defs nonfatal_defs)
qed

text \<open>
  C8. On the failure path of pcie_do_nonfatal_recovery, that is whenever the returned
  vote is not RECOVERED, the run is the broadcast phases followed by exactly one
  notification, DISCONNECT for the port, and the failure message. The bus returned is
  the bus as the last broadcast phase left it: each device NORMAL, or still
  PERM_FAILURE when it was PERM_FAILURE before the run. No event of the run removes a
  device or marks one PERM_FAILURE.
\<close>

theorem nonfatal_failed_reports_only:
  assumes run: "pcie_do_nonfatal_recovery ext dev0 bus_self = Some (status, bus', tr)"
    and failed: "status \<noteq> PCI_ERS_RESULT_RECOVERED"
  shows "\<exists>port bus bus2 status2 ev2 ev3.
           nonfatal_port dev0 bus_self = Some port \<and> subordinate port = Some bus \<and>
           nonfatal_detect (node_dev port) bus = (bus2, status2, ev2) \<and>
           nonfatal_reset ext (node_dev port) bus2 status2 = (True, bus', status, ev3) \<and>
           tr = ev2 @ ev3 @
                [Uevent_ers (dev_id (node_dev port)) PCI_ERS_RESULT_DISCONNECT,
                 Pci_info (dev_id (node_dev port)) ''device recovery failed''] \<and>
           bus' = map_bus set_normal bus \<and>
           (\<forall>e\<in>set tr. \<not> removes_or_disconnects e)"
proof -
  obtain port bus status2 ev2 failed ev3 where
    port: "nonfatal_port dev0 bus_self = Some port" and bus: "subordinate port = Some bus"
    and d: "nonfatal_detect (node_dev port) bus = (map_bus set_normal bus, status2, ev2)"
    and r: "nonfatal_reset ext (node_dev port) (map_bus set_normal bus) status2 =
           (failed, map_bus set_normal bus, status, ev3)"
    and b': "bus' = map_bus set_normal bus"
    and f: "failed \<longleftrightarrow> status \<noteq> PCI_ERS_RESULT_RECOVERED"
    and t1: "failed \<Longrightarrow> tr = ev2 @ ev3 @
           [Uevent_ers (dev_id (node_dev port)) PCI_ERS_RESULT_DISCONNECT,
            Pci_info (dev_id (node_dev port)) ''device recovery failed'']"
    and t2: "\<not> failed \<Longrightarrow> tr = ev2 @ ev3 @
           Pci_dbg (dev_id (node_dev port)) ''broadcast resume message'' #
           concat (map (visit_events report_resume) (bus_devs bus)) @
           (if pcie_aer_is_native ext (dev_id (node_dev port))
              then [Clear_device_status (dev_id (node_dev port))] else []) @
           [Aer_clear_nonfatal_status (dev_id (node_dev port)),
            Pci_info (dev_id (node_dev port)) ''device recovery successful'']"
    by (rule nonfatal_run_cases [OF run]) (rule that)
  from f failed have failed: failed by simp
  have keep: "\<forall>e\<in>set tr. \<not> removes_or_disconnects e"
    using nonfatal_run_events [OF run] by blast
  show ?thesis
    apply (rule exI [of _ port])
    apply (rule exI [of _ bus])
    apply (rule exI [of _ "map_bus set_normal bus"])
    apply (rule exI [of _ status2])
    apply (rule exI [of _ ev2])
    apply (rule exI [of _ ev3])
    using port bus d r b' t1 [OF failed] failed keep apply simp
    done
qed

theorem nonfatal_failed_reports_only_witness:
  "pcie_do_nonfatal_recovery (example_ext 0)
       (example_port
          [PciNode (example_endpoint 1 pci_channel_io_normal (Some (example_driver PCI_ERS_RESULT_CAN_RECOVER PCI_ERS_RESULT_RECOVERED))) None,
           PciNode (example_endpoint 2 pci_channel_io_normal None) None,
           PciNode (example_endpoint 3 pci_channel_io_frozen (Some (example_driver PCI_ERS_RESULT_CAN_RECOVER PCI_ERS_RESULT_RECOVERED))) None]) None =
     Some (PCI_ERS_RESULT_NO_AER_DRIVER,
           [PciNode (example_endpoint 1 pci_channel_io_normal (Some (example_driver PCI_ERS_RESULT_CAN_RECOVER PCI_ERS_RESULT_RECOVERED))) None,
            PciNode (example_endpoint 2 pci_channel_io_normal None) None,
            PciNode (example_endpoint 3 pci_channel_io_normal (Some (example_driver PCI_ERS_RESULT_CAN_RECOVER PCI_ERS_RESULT_RECOVERED))) None],
           [Pci_dbg 0 ''broadcast error_detected message'',
            Device_lock 1, Set_io_state 1 pci_channel_io_normal True,
            Call_error_detected 1 pci_channel_io_normal,
            Uevent_ers 1 PCI_ERS_RESULT_CAN_RECOVER, Device_unlock 1,
            Device_lock 2, Set_io_state 2 pci_channel_io_normal True,
            Pci_info 2 ''can't recover (no error_detected callback)'',
            Uevent_ers 2 PCI_ERS_RESULT_NO_AER_DRIVER, Device_unlock 2,
            Device_lock 3, Set_io_state 3 pci_channel_io_normal True,
            Call_error_detected 3 pci_channel_io_normal,
            Uevent_ers 3 PCI_ERS_RESULT_CAN_RECOVER, Device_unlock 3,
            Uevent_ers 0 PCI_ERS_RESULT_DISCONNECT,
            Pci_info 0 ''device recovery failed'']) \<and>
   PCI_ERS_RESULT_NO_AER_DRIVER \<noteq> PCI_ERS_RESULT_RECOVERED"
proof -
  let ?bus = "[PciNode (example_endpoint 1 pci_channel_io_normal (Some (example_driver PCI_ERS_RESULT_CAN_RECOVER PCI_ERS_RESULT_RECOVERED))) None,
               PciNode (example_endpoint 2 pci_channel_io_normal None) None,
               PciNode (example_endpoint 3 pci_channel_io_frozen (Some (example_driver PCI_ERS_RESULT_CAN_RECOVER PCI_ERS_RESULT_RECOVERED))) None]"
  let ?bus' = "[PciNode (example_endpoint 1 pci_channel_io_normal (Some (example_driver PCI_ERS_RESULT_CAN_RECOVER PCI_ERS_RESULT_RECOVERED))) None,
                PciNode (example_endpoint 2 pci_channel_io_normal None) None,
                PciNode (example_endpoint 3 pci_channel_io_normal (Some (example_driver PCI_ERS_RESULT_CAN_RECOVER PCI_ERS_RESULT_RECOVERED))) None]"
  let ?tr = "[Pci_dbg 0 ''broadcast error_detected message'',
            Device_lock 1, Set_io_state 1 pci_channel_io_normal True,
            Call_error_detected 1 pci_channel_io_normal,
            Uevent_ers 1 PCI_ERS_RESULT_CAN_RECOVER, Device_unlock 1,
            Device_lock 2, Set_io_state 2 pci_channel_io_normal True,
            Pci_info 2 ''can't recover (no error_detected callback)'',
            Uevent_ers 2 PCI_ERS_RESULT_NO_AER_DRIVER, Device_unlock 2,
            Device_lock 3, Set_io_state 3 pci_channel_io_normal True,
            Call_error_detected 3 pci_channel_io_normal,
            Uevent_ers 3 PCI_ERS_RESULT_CAN_RECOVER, Device_unlock 3,
            Uevent_ers 0 PCI_ERS_RESULT_DISCONNECT,
            Pci_info 0 ''device recovery failed'']"
  have run: "pcie_do_nonfatal_recovery (example_ext 0) (example_port ?bus) None =
               Some (PCI_ERS_RESULT_NO_AER_DRIVER, ?bus', ?tr)"
    by (simp add: example_defs nonfatal_defs)
  have failed: "PCI_ERS_RESULT_NO_AER_DRIVER \<noteq> PCI_ERS_RESULT_RECOVERED" by simp
  show ?thesis
    using nonfatal_failed_reports_only [OF run failed] run by simp
qed

text \<open>
  C10. In every run of pcie_do_nonfatal_recovery, each channel state handed to a device,
  to pci_dev_set_io_state or to an error_detected handler, is NORMAL
  (pci_channel_io_normal), and no device of the subtree is FROZEN when the run ends.
\<close>

theorem nonfatal_never_frozen:
  assumes run: "pcie_do_nonfatal_recovery ext dev0 bus_self = Some (status, bus', tr)"
  shows "(\<forall>e\<in>set tr. state_normal e) \<and>
         (\<forall>d\<in>set (bus_devs bus'). error_state d \<noteq> pci_channel_io_frozen)"
  using nonfatal_run_events [OF run] nonfatal_run_bus [OF run] by fastforce

theorem nonfatal_never_frozen_witness:
  "pcie_do_nonfatal_recovery (example_ext 0)
       (example_port (example_single pci_channel_io_frozen None)) None =
     Some (PCI_ERS_RESULT_NO_AER_DRIVER,
           example_single pci_channel_io_normal None,
           [Pci_dbg 0 ''broadcast error_detected message'',
            Device_lock 1, Set_io_state 1 pci_channel_io_normal True,
            Pci_info 1 ''can't recover (no error_detected callback)'',
            Uevent_ers 1 PCI_ERS_RESULT_NO_AER_DRIVER, Device_unlock 1,
            Uevent_ers 0 PCI_ERS_RESULT_DISCONNECT,
            Pci_info 0 ''device recovery failed'']) \<and>
   state_normal (Set_io_state 1 pci_channel_io_normal True) \<and>
   error_state (example_endpoint 1 pci_channel_io_normal None) \<noteq> pci_channel_io_frozen"
proof -
  let ?tr = "[Pci_dbg 0 ''broadcast error_detected message'',
            Device_lock 1, Set_io_state 1 pci_channel_io_normal True,
            Pci_info 1 ''can't recover (no error_detected callback)'',
            Uevent_ers 1 PCI_ERS_RESULT_NO_AER_DRIVER, Device_unlock 1,
            Uevent_ers 0 PCI_ERS_RESULT_DISCONNECT,
            Pci_info 0 ''device recovery failed'']"
  have run: "pcie_do_nonfatal_recovery (example_ext 0)
               (example_port (example_single pci_channel_io_frozen None)) None =
             Some (PCI_ERS_RESULT_NO_AER_DRIVER, example_single pci_channel_io_normal None, ?tr)"
    by (simp add: example_defs nonfatal_defs)
  show ?thesis
    using nonfatal_never_frozen [OF run] run
    by (simp add: example_single_def)
qed

section \<open>Fatal recovery\<close>

text \<open>
  C7. In pcie_do_fatal_recovery, every device of the subtree below the acting root is
  first marked PERM_FAILURE, in discovery order; then, under the rescan/remove lock,
  every device of the subtree is removed in reverse discovery order, so each child
  before its parent (discovery order lists a bridge before the devices below it); and
  the link-reset primitive is called on the acting root only after all the removals,
  with no device left on the bus. Nothing after the reset removes or marks a device.
\<close>

theorem fatal_teardown_order:
  assumes udev: "(if hdr_type (node_dev dev) = PCI_HEADER_TYPE_BRIDGE then Some dev else bus_self)
                   = Some udev"
    and parent: "subordinate udev = Some parent"
  shows "\<exists>rest.
           pcie_do_fatal_recovery ext dev bus_self reset_link =
             Some (reset_link (dev_id (node_dev udev)), [],
                   concat (map (\<lambda>d. [Device_lock (dev_id d),
                                      Set_io_state (dev_id d) pci_channel_io_perm_failure True,
                                      Device_unlock (dev_id d)]) (bus_devs parent)) @
                   [Lock_rescan_remove, Dev_get (dev_id (node_dev dev))] @
                   map (\<lambda>d. Stop_and_remove (dev_id d)) (rev (bus_devs parent)) @
                   Reset_link (dev_id (node_dev udev)) # rest) \<and>
           (\<forall>e\<in>set rest. \<not> removes_or_disconnects e)"
  by (auto simp add: pcie_do_fatal_recovery_def udev parent walk_set_disconnected
        remove_devices_reverse_bus bus_devs_map_bus comp_def Let_def rev_map)

theorem fatal_teardown_order_witness:
  "pcie_do_fatal_recovery (example_ext 0)
       (example_port (example_subtree pci_channel_io_normal None)) None
       (\<lambda>d. PCI_ERS_RESULT_RECOVERED) =
     Some (PCI_ERS_RESULT_RECOVERED, [],
           [Device_lock 1, Set_io_state 1 pci_channel_io_perm_failure True, Device_unlock 1,
            Device_lock 2, Set_io_state 2 pci_channel_io_perm_failure True, Device_unlock 2,
            Lock_rescan_remove, Dev_get 0,
            Stop_and_remove 2, Stop_and_remove 1,
            Reset_link 0,
            Aer_clear_fatal_status 0, Clear_device_status 0,
            Wait_for_link 0 True, Rescan_bus 0,
            Pci_info 0 ''Device recovery from fatal error successful'',
            Dev_put 0, Unlock_rescan_remove])"
proof -
  let ?bus = "example_subtree pci_channel_io_normal None"
  have udev: "(if hdr_type (node_dev (example_port ?bus)) = PCI_HEADER_TYPE_BRIDGE
               then Some (example_port ?bus) else None) = Some (example_port ?bus)"
    by (simp add: example_port_def)
  have parent: "subordinate (example_port ?bus) = Some ?bus"
    by (simp add: example_port_def)
  show ?thesis
    using fatal_teardown_order [OF udev parent, of "example_ext 0" "\<lambda>d. PCI_ERS_RESULT_RECOVERED"]
    by (simp add: example_defs pcie_do_fatal_recovery_def pci_dev_set_disconnected_def
          pci_dev_set_io_state_def pci_stop_and_remove_bus_device_def Let_def)
qed

end
